theory Spec2Isabelle
  imports Complex_Main
begin

section \<open>The training driver \<open>train_pt.py\<close>\<close>

text \<open>
  A shallow embedding of \<open>src/train_pt.py\<close>. Python exceptions are values of the type
  \<open>error\<close>; a function that may raise returns \<open>error + 'a\<close> with \<open>Inl\<close> for the exception.
  Python floats are modelled by exact rationals (\<open>rat\<close>): the properties proved below are about
  the structure of the computation, not about rounding.
\<close>

datatype error =
    AttributeError string
  | UnboundLocalError string
  | KeyError string
  | ValueError string
  | TypeError string
  | AssertionError string
  | ZeroDivisionError
  | RuntimeError string
  | FileNotFoundError string
  | SystemExit string
  | PlainException

subsection \<open>\<open>prepare_pt_context\<close> (lines 210-214)\<close>

definition prepare_pt_context :: "int \<Rightarrow> int \<Rightarrow> bool \<times> int" where
  "prepare_pt_context num_gpus batch_size =
     (let use_cuda = (num_gpus > 0);
          batch_size = batch_size * max 1 num_gpus
      in (use_cuda, batch_size))"

subsection \<open>\<open>AverageMeter\<close> (lines 388-403)\<close>

text \<open>
  The four attributes of the class. \<open>sum\<close> is a HOL constant, so the attribute \<open>sum\<close> is
  the field \<open>sum_m\<close>. The attributes hold Python numbers; \<open>count\<close> and the weight \<open>n\<close> are
  integers.
\<close>

record AverageMeter =
  val :: rat
  avg :: rat
  sum_m :: rat
  count :: int

definition reset :: "AverageMeter \<Rightarrow> AverageMeter" where
  "reset self = self\<lparr>val := 0, avg := 0, sum_m := 0, count := 0\<rparr>"

text \<open>
  \<open>update\<close> assigns \<open>val\<close>, \<open>sum\<close> and \<open>count\<close> and then divides; a zero \<open>count\<close> makes the
  division of Python numbers raise \<open>ZeroDivisionError\<close>.
\<close>

definition update :: "AverageMeter \<Rightarrow> rat \<Rightarrow> int \<Rightarrow> error + AverageMeter" where
  "update self v n =
     (let self = self\<lparr>val := v\<rparr>;
          self = self\<lparr>sum_m := sum_m self + v * of_int n\<rparr>;
          self = self\<lparr>count := count self + n\<rparr>
      in if count self = 0 then Inl ZeroDivisionError
         else Inr (self\<lparr>avg := sum_m self / of_int (count self)\<rparr>))"

text \<open>A client calling \<open>update\<close> repeatedly; the first exception ends the sequence.\<close>

fun updates :: "AverageMeter \<Rightarrow> (rat \<times> int) list \<Rightarrow> error + AverageMeter" where
  "updates self [] = Inr self"
| "updates self ((v, n) # rest) =
     (case update self v n of Inl e \<Rightarrow> Inl e | Inr self' \<Rightarrow> updates self' rest)"

subsection \<open>\<open>accuracy\<close> (lines 406-420)\<close>

text \<open>
  \<open>output\<close> is the batch of score rows (one row of class scores per sample), \<open>target\<close> the
  class labels. \<open>output.topk(maxk, 1, True, True)\<close> gives, per row, the indices of the
  \<open>maxk\<close> largest scores, largest first; among equal scores the model takes the lower index
  first (the library leaves ties open). A row shorter than \<open>maxk\<close> makes \<open>topk\<close> raise.
\<close>

definition topk_row :: "nat \<Rightarrow> rat list \<Rightarrow> nat list" where
  "topk_row k row = take k (map snd (sort_key (\<lambda>(s, i). - s) (zip row [0 ..< length row])))"

text \<open>
  \<open>target.view(1, -1).expand_as(pred)\<close>: the labels as one row, repeated for every rank.
  The expansion exists when there is one label per sample, or a single label (which is
  then broadcast to every sample).
\<close>

definition expand_target :: "nat list \<Rightarrow> nat \<Rightarrow> error + nat list" where
  "expand_target target b =
     (if length target = b then Inr target
      else if length target = 1 then Inr (replicate b (hd target))
      else Inl (RuntimeError ''expand_as: sizes do not match''))"

text \<open>
  \<open>correct[:k].view(-1).float().sum(0)\<close>: the number of (rank, sample) pairs with rank
  below \<open>k\<close> whose predicted index equals the sample's label.
\<close>

definition correct_k :: "nat \<Rightarrow> nat list list \<Rightarrow> nat list \<Rightarrow> nat" where
  "correct_k k pred target =
     sum_list (map (\<lambda>(p, t). length (filter (\<lambda>c. c = t) (take k p))) (zip pred target))"

definition accuracy :: "rat list list \<Rightarrow> nat list \<Rightarrow> nat list \<Rightarrow> error + rat list" where
  "accuracy output target topk =
     (if topk = [] then Inl (ValueError ''max() arg is an empty sequence'')
      else
        let maxk = fold max topk 0;
            batch_size = length target
        in if list_ex (\<lambda>row. length row < maxk) output
           then Inl (RuntimeError ''topk: selected index k out of range'')
           else
             let pred = map (topk_row maxk) output
             in case expand_target target (length output) of
                  Inl e \<Rightarrow> Inl e
                | Inr target' \<Rightarrow>
                    if batch_size = 0 then Inl ZeroDivisionError
                    else Inr (map (\<lambda>k. of_nat (correct_k k pred target')
                                         * (100 / of_nat batch_size)) topk))"

subsection \<open>Python values, the journal and the framework\<close>

text \<open>
  Dynamically typed values: the attributes of the argument namespace and the entries of a
  checkpoint dictionary. \<open>VOpaque\<close> stands for serialized framework data (tensors, an
  optimizer's state) whose content the driver never inspects.
\<close>

datatype pyval =
    VNone
  | VBool bool
  | VInt int
  | VFloat rat
  | VStr string
  | VOpaque string
  | VList "pyval list"
  | VDict "(string \<times> pyval) list"

text \<open>Python truth value testing, for the types above.\<close>

fun truthy :: "pyval \<Rightarrow> bool" where
  "truthy VNone = False"
| "truthy (VBool b) = b"
| "truthy (VInt i) = (i \<noteq> 0)"
| "truthy (VFloat x) = (x \<noteq> 0)"
| "truthy (VStr s) = (s \<noteq> [])"
| "truthy (VOpaque s) = True"
| "truthy (VList vs) = (vs \<noteq> [])"
| "truthy (VDict kvs) = (kvs \<noteq> [])"

text \<open>
  A metric as the driver holds it. \<open>accuracy\<close> returns a list of tensors of shape \<open>[1]\<close>
  (\<open>sum(0, keepdim=True)\<close>, line 418). \<open>validate\<close> unpacks the list and takes the entry
  \<open>prec1[0]\<close> of the tensor, which has no dimension and behaves as a number; \<open>train_epoch\<close>
  keeps the list, so its \<open>prec1[0]\<close> is the tensor of shape \<open>[1]\<close> itself and so are the
  sums and averages computed from it. \<open>'{:.4f}'.format\<close> accepts a number; for a tensor
  that has a dimension, \<open>Tensor.__format__\<close> defers to \<open>object.__format__\<close>, which raises
  \<open>TypeError\<close> for a format specification that is not empty.
\<close>

datatype metric = Number rat | Tensor1 rat

fun one_minus :: "metric \<Rightarrow> metric" where
  "one_minus (Number x) = Number (1 - x)"
| "one_minus (Tensor1 x) = Tensor1 (1 - x)"

fun format_4f :: "metric \<Rightarrow> error + rat" where
  "format_4f (Number x) = Inr x"
| "format_4f (Tensor1 x) =
     Inl (TypeError ''unsupported format string passed to Tensor.__format__'')"

text \<open>
  What a run does to the outside is recorded in a journal: one entry per \<open>logging.info\<close>
  line (named after its format string, with the formatted arguments; wall-clock figures
  are left out) and one per call of \<open>net.train()\<close>, \<open>net.eval()\<close> and of the saver's
  \<open>epoch_test_end_callback\<close>.
\<close>

datatype event =
    InfoSeparator
  | InfoCommandLine "string list"
  | InfoArguments "(string \<times> pyval) list"
  | InfoEnvStats string
  | InfoLoadingModel string
  | InfoTest rat rat
  | InfoTimeCost
  | InfoModelParameters nat
  | InfoEpochTraining int rat rat
  | InfoEpochSpeed int
  | InfoStartTraining int
  | InfoEpochValidation int rat rat
  | InfoTotalTime
  | InfoBest pyval pyval
  | Warned
  | NetTrain
  | NetEval
  | EpochTestEnd int "metric list"

text \<open>
  The state of a run: the world of the framework's objects (networks, optimizers, the
  saver, files, random generators), which only the framework's own operations read and
  change, and the journal. A step returns its result or the exception together with the
  state it leaves, so that what happened before an exception is still there.
\<close>

record 'w machine =
  world :: 'w
  journal :: "event list"

type_synonym ('w, 'a) run = "'w machine \<Rightarrow> (error + 'a) \<times> 'w machine"

definition ret :: "'a \<Rightarrow> ('w, 'a) run" where
  "ret x = (\<lambda>s. (Inr x, s))"

definition raise :: "error \<Rightarrow> ('w, 'a) run" where
  "raise e = (\<lambda>s. (Inl e, s))"

definition lift :: "error + 'a \<Rightarrow> ('w, 'a) run" where
  "lift r = (\<lambda>s. (r, s))"

definition bind :: "('w, 'a) run \<Rightarrow> ('a \<Rightarrow> ('w, 'b) run) \<Rightarrow> ('w, 'b) run" where
  "bind m f = (\<lambda>s. case m s of (Inl e, s') \<Rightarrow> (Inl e, s') | (Inr x, s') \<Rightarrow> f x s')"

definition call :: "('w \<Rightarrow> (error + 'a) \<times> 'w) \<Rightarrow> ('w, 'a) run" where
  "call f = (\<lambda>s. case f (world s) of (r, w') \<Rightarrow> (r, s\<lparr>world := w'\<rparr>))"

definition emit :: "event \<Rightarrow> ('w, unit) run" where
  "emit ev = (\<lambda>s. (Inr (), s\<lparr>journal := journal s @ [ev]\<rparr>))"

text \<open>
  The operations of the framework and of the repository's modules that are not part of
  \<open>train_pt.py\<close>, as the driver calls them. \<open>'r\<close> is the type of references to framework
  objects (a network, an optimizer, a loss, the saver), \<open>'x\<close> the type of one input sample;
  a data loader is the list of the batches one pass over it yields. Each operation may
  raise. Moving tensors to a device (\<open>.cuda()\<close> on an input or a label) is not modelled.
  \<open>save_parameters net\<close> is the bound method \<open>net.save_parameters\<close>, or \<open>None\<close> when the
  network object has no attribute of that name.
\<close>

record ('w, 'r, 'x) framework =
  randint :: "'w \<Rightarrow> (error + int) \<times> 'w"
  seed_all :: "int \<Rightarrow> 'w \<Rightarrow> (error + unit) \<times> 'w"
  set_deterministic :: "'w \<Rightarrow> (error + unit) \<times> 'w"
  path_exists :: "string \<Rightarrow> 'w \<Rightarrow> (error + bool) \<times> 'w"
  makedirs :: "string \<Rightarrow> 'w \<Rightarrow> (error + unit) \<times> 'w"
  getsize :: "string \<Rightarrow> 'w \<Rightarrow> (error + int) \<times> 'w"
  add_file_handler :: "string \<Rightarrow> 'w \<Rightarrow> (error + unit) \<times> 'w"
  get_env_stats :: "string list \<Rightarrow> string list \<Rightarrow> 'w \<Rightarrow> (error + string) \<times> 'w"
  upstream_models :: "string \<Rightarrow> ((string \<times> pyval) list \<Rightarrow> 'w \<Rightarrow> (error + 'r) \<times> 'w) option"
  slk_constructor :: "string \<Rightarrow> (string \<times> pyval) list \<Rightarrow> 'w \<Rightarrow> (error + 'r) \<times> 'w"
  data_parallel :: "'r \<Rightarrow> 'w \<Rightarrow> (error + 'r) \<times> 'w"
  features_parallel :: "'r \<Rightarrow> 'w \<Rightarrow> (error + unit) \<times> 'w"
  net_cuda :: "'r \<Rightarrow> 'w \<Rightarrow> (error + 'r) \<times> 'w"
  isfile :: "string \<Rightarrow> 'w \<Rightarrow> (error + bool) \<times> 'w"
  torch_load :: "string \<Rightarrow> 'w \<Rightarrow> (error + pyval) \<times> 'w"
  load_state_dict :: "'r \<Rightarrow> pyval \<Rightarrow> 'w \<Rightarrow> (error + unit) \<times> 'w"
  image_folder_loader :: "string \<Rightarrow> bool \<Rightarrow> int \<Rightarrow> int \<Rightarrow> 'w \<Rightarrow> (error + ('x list \<times> nat list) list) \<times> 'w"
  sgd :: "'r \<Rightarrow> rat \<Rightarrow> rat \<Rightarrow> rat \<Rightarrow> bool \<Rightarrow> 'w \<Rightarrow> (error + 'r) \<times> 'w"
  set_cudnn_benchmark :: "'w \<Rightarrow> (error + unit) \<times> 'w"
  collect_params :: "'r \<Rightarrow> 'w \<Rightarrow> (error + nat list option list) \<times> 'w"
  save_parameters :: "'r \<Rightarrow> (string \<Rightarrow> 'w \<Rightarrow> (error + unit) \<times> 'w) option"
  net_train :: "'r \<Rightarrow> 'w \<Rightarrow> (error + unit) \<times> 'w"
  net_eval :: "'r \<Rightarrow> 'w \<Rightarrow> (error + unit) \<times> 'w"
  net_call :: "'r \<Rightarrow> 'x list \<Rightarrow> 'w \<Rightarrow> (error + rat list list) \<times> 'w"
  cross_entropy_loss :: "'w \<Rightarrow> (error + 'r) \<times> 'w"
  loss_call :: "'r \<Rightarrow> rat list list \<Rightarrow> nat list \<Rightarrow> 'w \<Rightarrow> (error + 'r) \<times> 'w"
  zero_grad :: "'r \<Rightarrow> 'w \<Rightarrow> (error + unit) \<times> 'w"
  backward :: "'r \<Rightarrow> 'w \<Rightarrow> (error + unit) \<times> 'w"
  optimizer_step :: "'r \<Rightarrow> 'w \<Rightarrow> (error + unit) \<times> 'w"
  loss_scalars :: "'r \<Rightarrow> 'w \<Rightarrow> (error + rat list) \<times> 'w"
  new_saver :: "(string \<times> pyval) list \<Rightarrow> 'w \<Rightarrow> (error + 'r) \<times> 'w"
  epoch_test_end_callback :: "'r \<Rightarrow> int \<Rightarrow> metric list \<Rightarrow> 'r \<Rightarrow> 'w \<Rightarrow> (error + unit) \<times> 'w"
  best_eval_metric :: "'r \<Rightarrow> 'w \<Rightarrow> (error + pyval \<times> pyval) \<times> 'w"

subsection \<open>\<open>validate\<close> (lines 423-441)\<close>

text \<open>
  The loop over \<open>val_data\<close>. \<open>input.size(0)\<close> is the number of samples of the batch.
  \<open>prec1[0]\<close> and \<open>prec5[0]\<close> are the two entries of the list \<open>accuracy\<close> returns for
  \<open>topk=(1, 5)\<close>.
\<close>

fun validate_loop ::
  "('w, 'r, 'x) framework \<Rightarrow> 'r \<Rightarrow> ('x list \<times> nat list) list \<Rightarrow>
   AverageMeter \<times> AverageMeter \<Rightarrow> ('w, AverageMeter \<times> AverageMeter) run" where
  "validate_loop fw net [] (acc_top1, acc_top5) = ret (acc_top1, acc_top5)"
| "validate_loop fw net ((input, target) # rest) (acc_top1, acc_top5) =
     bind (call (net_call fw net input)) (\<lambda>output.
     bind (lift (accuracy output target [1, 5])) (\<lambda>prec.
     bind (lift (update acc_top1 (prec ! 0) (int (length input)))) (\<lambda>acc_top1.
     bind (lift (update acc_top5 (prec ! 1) (int (length input)))) (\<lambda>acc_top5.
     validate_loop fw net rest (acc_top1, acc_top5)))))"

definition validate ::
  "('w, 'r, 'x) framework \<Rightarrow> AverageMeter \<Rightarrow> AverageMeter \<Rightarrow> 'r \<Rightarrow>
   ('x list \<times> nat list) list \<Rightarrow> bool \<Rightarrow>
   ('w, (rat \<times> rat) \<times> AverageMeter \<times> AverageMeter) run" where
  "validate fw acc_top1 acc_top5 net val_data use_cuda =
     bind (emit NetEval) (\<lambda>_.
     bind (call (net_eval fw net)) (\<lambda>_.
     bind (validate_loop fw net val_data (reset acc_top1, reset acc_top5)) (\<lambda>(acc_top1, acc_top5).
       let top1 = avg acc_top1;
           top5 = avg acc_top5
       in ret ((1 - top1, 1 - top5), acc_top1, acc_top5))))"

text \<open>
  The glossary's metric, written from the spec's words: the fraction of the samples whose
  true label is not among the \<open>k\<close> highest-scored classes. \<open>samples\<close> pairs each score row
  with its label.
\<close>

definition spec_topk_error :: "nat \<Rightarrow> (rat list \<times> nat) list \<Rightarrow> rat" where
  "spec_topk_error k samples =
     of_nat (length (filter (\<lambda>(row, t). t \<notin> set (topk_row k row)) samples))
       / of_nat (length samples)"

text \<open>
  For stating what \<open>validate\<close> computes: a batch a data loader can yield for a network
  \<open>f\<close> (not empty, one label and one row of at least five scores per sample), the score
  rows of a validation set paired with their labels, and the number of samples whose
  label is among the \<open>k\<close> highest-scored classes.
\<close>

definition well_formed_batch :: "('x list \<Rightarrow> rat list list) \<Rightarrow> 'x list \<times> nat list \<Rightarrow> bool" where
  "well_formed_batch f b =
     (fst b \<noteq> [] \<and> length (snd b) = length (fst b) \<and> length (f (fst b)) = length (fst b) \<and>
      list_all (\<lambda>row. 5 \<le> length row) (f (fst b)))"

definition scored_samples ::
  "('x list \<Rightarrow> rat list list) \<Rightarrow> ('x list \<times> nat list) list \<Rightarrow> (rat list \<times> nat) list" where
  "scored_samples f val_data = concat (map (\<lambda>b. zip (f (fst b)) (snd b)) val_data)"

definition right_k :: "nat \<Rightarrow> (rat list \<times> nat) list \<Rightarrow> nat" where
  "right_k k samples = length (filter (\<lambda>(row, t). t \<in> set (topk_row k row)) samples)"

subsection \<open>\<open>calc_net_weight_count\<close> (lines 373-380)\<close>

text \<open>
  \<open>net.collect_params().values()\<close> is the list of the parameters' shapes, \<open>None\<close> for a
  parameter without one; \<open>np.prod\<close> of a shape is the product of its entries.
\<close>

definition calc_net_weight_count :: "('w, 'r, 'x) framework \<Rightarrow> 'r \<Rightarrow> ('w, nat) run" where
  "calc_net_weight_count fw net =
     bind (call (collect_params fw net)) (\<lambda>net_params.
     ret (fold (\<lambda>shape weight_count.
                  case shape of None \<Rightarrow> weight_count
                  | Some dims \<Rightarrow> weight_count + prod_list dims)
            net_params 0))"

subsection \<open>\<open>train_epoch\<close> (lines 463-515)\<close>

text \<open>
  The body of the loop over \<open>enumerate(train_data)\<close>, with the loop variables \<open>i\<close>,
  \<open>acc_top1\<close> and \<open>train_loss\<close>. \<open>loss_scalars\<close> stands for the list
  \<open>[l.mean().asscalar() for l in loss]\<close>, whose length is \<open>len(loss)\<close>. The class
  \<open>AverageMeter\<close> has the methods \<open>reset\<close> and \<open>update\<close> only, so the attribute lookup
  \<open>acc_top1.get\<close> of the logging branch raises \<open>AttributeError\<close>; the rest of that branch
  is never reached.
\<close>

fun train_loop ::
  "('w, 'r, 'x) framework \<Rightarrow> int \<Rightarrow> 'r \<Rightarrow> 'r \<Rightarrow> 'r \<Rightarrow> int \<Rightarrow>
   ('x list \<times> nat list) list \<Rightarrow> int \<Rightarrow> AverageMeter \<times> rat \<Rightarrow>
   ('w, AverageMeter \<times> rat) run" where
  "train_loop fw epoch net L optimizer log_interval [] i (acc_top1, train_loss) =
     ret (acc_top1, train_loss)"
| "train_loop fw epoch net L optimizer log_interval ((input, target) # rest) i
       (acc_top1, train_loss) =
     bind (call (net_call fw net input)) (\<lambda>output.
     bind (call (loss_call fw L output target)) (\<lambda>loss.
     bind (call (zero_grad fw optimizer)) (\<lambda>_.
     bind (call (backward fw loss)) (\<lambda>_.
     bind (call (optimizer_step fw optimizer)) (\<lambda>_.
     bind (if epoch = 0 \<and> i = 0
           then bind (calc_net_weight_count fw net) (\<lambda>weight_count.
                emit (InfoModelParameters weight_count))
           else ret ()) (\<lambda>_.
     bind (call (loss_scalars fw loss)) (\<lambda>ls.
     bind (if length ls = 0 then raise ZeroDivisionError
           else ret (train_loss + sum_list ls / of_nat (length ls))) (\<lambda>train_loss.
     bind (lift (accuracy output target [1])) (\<lambda>prec1.
     bind (lift (update acc_top1 (prec1 ! 0) (int (length input)))) (\<lambda>acc_top1.
     bind (if log_interval \<noteq> 0 \<and> (i + 1) mod log_interval = 0
           then raise (AttributeError ''get'')
           else ret ()) (\<lambda>_.
     train_loop fw epoch net L optimizer log_interval rest (i + 1)
       (acc_top1, train_loss))))))))))))"

text \<open>
  The loop stores \<open>prec1[0]\<close>, an entry of the list \<open>accuracy\<close> returned and so a tensor of
  shape \<open>[1]\<close>, in the meter: after a batch \<open>acc_top1.avg\<close> is such a tensor (the meter of
  the model holds its value), after no batch it is the \<open>0\<close> of \<open>reset\<close>. After the loop \<open>i\<close>
  is the index of the last batch; with no batch at all the name \<open>i\<close> was never bound and
  \<open>train_loss /= (i + 1)\<close> raises \<open>UnboundLocalError\<close>. The arguments of the first
  \<open>logging.info\<close> are formatted before the line is written. The throughput figure depends
  on the clock and is left out.
\<close>

definition train_epoch ::
  "('w, 'r, 'x) framework \<Rightarrow> int \<Rightarrow> AverageMeter \<Rightarrow> 'r \<Rightarrow> ('x list \<times> nat list) list \<Rightarrow>
   bool \<Rightarrow> 'r \<Rightarrow> 'r \<Rightarrow> pyval \<Rightarrow> int \<Rightarrow> int \<Rightarrow>
   ('w, (metric \<times> rat) \<times> AverageMeter) run" where
  "train_epoch fw epoch acc_top1 net train_data use_cuda L optimizer lr_scheduler
       batch_size log_interval =
     bind (emit NetTrain) (\<lambda>_.
     bind (call (net_train fw net)) (\<lambda>_.
     bind (train_loop fw epoch net L optimizer log_interval train_data 0
             (reset acc_top1, 0)) (\<lambda>(acc_top1, train_loss).
       let top1 = (if train_data = [] then Number (avg acc_top1) else Tensor1 (avg acc_top1));
           err_top1_train = one_minus top1
       in if train_data = [] then raise (UnboundLocalError ''i'')
          else
            let i = int (length train_data) - 1;
                train_loss = train_loss / of_int (i + 1)
            in bind (lift (format_4f err_top1_train)) (\<lambda>shown.
               bind (emit (InfoEpochTraining (epoch + 1) shown train_loss)) (\<lambda>_.
               bind (emit (InfoEpochSpeed (epoch + 1))) (\<lambda>_.
               ret ((err_top1_train, train_loss), acc_top1)))))))"

subsection \<open>\<open>train_net\<close> (lines 518-581)\<close>

text \<open>The object \<open>AverageMeter()\<close> creates: the constructor calls \<open>reset\<close>.\<close>

definition new_AverageMeter :: AverageMeter where
  "new_AverageMeter = \<lparr>val = 0, avg = 0, sum_m = 0, count = 0\<rparr>"

text \<open>
  The loop \<open>for epoch in range(start_epoch1 - 1, num_epochs)\<close>, over the list of its
  epochs, with the two meters the iterations share. \<open>lp_saver\<close> is \<open>None\<close> or the saver.
  The list \<open>params\<close> holds the two numbers \<open>validate\<close> returned, the training error as
  \<open>train_epoch\<close> returned it, and the training loss.
\<close>

fun epoch_loop ::
  "('w, 'r, 'x) framework \<Rightarrow> int \<Rightarrow> ('x list \<times> nat list) list \<Rightarrow> ('x list \<times> nat list) list \<Rightarrow>
   'r \<Rightarrow> 'r \<Rightarrow> pyval \<Rightarrow> 'r option \<Rightarrow> int \<Rightarrow> bool \<Rightarrow> 'r \<Rightarrow> int list \<Rightarrow>
   AverageMeter \<times> AverageMeter \<Rightarrow> ('w, AverageMeter \<times> AverageMeter) run" where
  "epoch_loop fw batch_size train_data val_data net optimizer lr_scheduler lp_saver
       log_interval use_cuda L [] (acc_top1, acc_top5) = ret (acc_top1, acc_top5)"
| "epoch_loop fw batch_size train_data val_data net optimizer lr_scheduler lp_saver
       log_interval use_cuda L (epoch # rest) (acc_top1, acc_top5) =
     bind (train_epoch fw epoch acc_top1 net train_data use_cuda L optimizer lr_scheduler
             batch_size log_interval) (\<lambda>((err_top1_train, train_loss), acc_top1).
     bind (validate fw acc_top1 acc_top5 net val_data use_cuda)
       (\<lambda>((err_top1_val, err_top5_val), acc_top1, acc_top5).
     bind (emit (InfoEpochValidation (epoch + 1) err_top1_val err_top5_val)) (\<lambda>_.
     bind (case lp_saver of
             None \<Rightarrow> ret ()
           | Some saver \<Rightarrow>
               bind (emit (EpochTestEnd (epoch + 1)
                       [Number err_top1_val, err_top1_train, Number err_top5_val,
                        Number train_loss])) (\<lambda>_.
               call (epoch_test_end_callback fw saver (epoch + 1)
                       [Number err_top1_val, err_top1_train, Number err_top5_val,
                        Number train_loss] net))) (\<lambda>_.
     epoch_loop fw batch_size train_data val_data net optimizer lr_scheduler lp_saver
       log_interval use_cuda L rest (acc_top1, acc_top5)))))"

text \<open>
  \<open>start_epoch1\<close> is whatever the caller passes (a checkpoint's \<open>epoch\<close> entry, in \<open>main\<close>);
  the first assertion holds for a Python \<open>int\<close> only (\<open>type(True)\<close> is \<open>bool\<close>).
  \<open>range(a, b)\<close> is the list \<open>[a..b - 1]\<close>.
\<close>

definition train_net ::
  "('w, 'r, 'x) framework \<Rightarrow> int \<Rightarrow> int \<Rightarrow> pyval \<Rightarrow> ('x list \<times> nat list) list \<Rightarrow>
   ('x list \<times> nat list) list \<Rightarrow> 'r \<Rightarrow> 'r \<Rightarrow> pyval \<Rightarrow> 'r option \<Rightarrow> int \<Rightarrow> bool \<Rightarrow>
   ('w, unit) run" where
  "train_net fw batch_size num_epochs start_epoch1 train_data val_data net optimizer
       lr_scheduler lp_saver log_interval use_cuda =
     (let acc_top1 = new_AverageMeter;
          acc_top5 = new_AverageMeter
      in bind (call (cross_entropy_loss fw)) (\<lambda>L.
         case start_epoch1 of
           VInt start \<Rightarrow>
             if \<not> start \<ge> 1 then raise (AssertionError ''start_epoch1 >= 1'')
             else
               bind (if start > 1
                     then bind (emit (InfoStartTraining start)) (\<lambda>_.
                          bind (validate fw acc_top1 acc_top5 net val_data use_cuda)
                            (\<lambda>((err_top1_val, err_top5_val), acc_top1, acc_top5).
                          bind (emit (InfoEpochValidation (start - 1) err_top1_val err_top5_val))
                            (\<lambda>_.
                          ret (acc_top1, acc_top5))))
                     else ret (acc_top1, acc_top5)) (\<lambda>(acc_top1, acc_top5).
               bind (epoch_loop fw batch_size train_data val_data net optimizer lr_scheduler
                       lp_saver log_interval use_cuda L [start - 1 .. num_epochs - 1]
                       (acc_top1, acc_top5)) (\<lambda>_.
               bind (emit InfoTotalTime) (\<lambda>_.
               case lp_saver of
                 None \<Rightarrow> ret ()
               | Some saver \<Rightarrow>
                   bind (call (best_eval_metric fw saver)) (\<lambda>(value, best_epoch).
                   emit (InfoBest value best_epoch)))))
         | _ \<Rightarrow> raise (AssertionError ''type(start_epoch1) == int'')))"

subsection \<open>\<open>test\<close> (lines 444-460)\<close>

definition test ::
  "('w, 'r, 'x) framework \<Rightarrow> 'r \<Rightarrow> ('x list \<times> nat list) list \<Rightarrow> bool \<Rightarrow> ('w, unit) run" where
  "test fw net val_data use_cuda =
     (let acc_top1 = new_AverageMeter;
          acc_top5 = new_AverageMeter
      in bind (validate fw acc_top1 acc_top5 net val_data use_cuda)
           (\<lambda>((err_top1_val, err_top5_val), _).
         bind (emit (InfoTest err_top1_val err_top5_val)) (\<lambda>_.
         emit InfoTimeCost)))"

subsection \<open>\<open>_get_model\<close> (lines 261-299)\<close>

text \<open>The keys of the dictionary \<open>slk_models\<close>, in the order of the source.\<close>

definition slk_models :: "string list" where
  "slk_models =
     [''squeezenet1_0'', ''squeezenet1_1'',
      ''mobilenet1_0'', ''mobilenet0_75'', ''mobilenet0_5'', ''mobilenet0_25'',
      ''fd_mobilenet1_0'', ''fd_mobilenet0_75'', ''fd_mobilenet0_5'', ''fd_mobilenet0_25'',
      ''shufflenet1_0_g1'', ''shufflenet1_0_g2'', ''shufflenet1_0_g3'', ''shufflenet1_0_g4'',
      ''shufflenet1_0_g8'',
      ''shufflenet0_5_g1'', ''shufflenet0_5_g2'', ''shufflenet0_5_g3'', ''shufflenet0_5_g4'',
      ''shufflenet0_5_g8'',
      ''shufflenet0_25_g1'', ''shufflenet0_25_g2'', ''shufflenet0_25_g3'', ''shufflenet0_25_g4'',
      ''shufflenet0_25_g8'',
      ''menet108_8x1_g3'']"

text \<open>
  \<open>models\<close> is the module \<open>torchvision.models\<close>; \<open>upstream_models\<close> is its \<open>__dict__\<close>.
  The subscript \<open>models.__dict__[name]\<close> raises \<open>KeyError\<close> for a name that is not a key,
  and the \<open>except\<close> clause catches \<open>ValueError\<close> only. When the upstream constructor does
  raise \<open>ValueError\<close>, the handler is left with the message, the name is lowered, and the
  test \<open>name not in models\<close> asks a module for membership, which raises \<open>TypeError\<close>
  (a module is not a container); lines 297 and 298 are never reached.
\<close>

definition get_model ::
  "('w, 'r, 'x) framework \<Rightarrow> string \<Rightarrow> (string \<times> pyval) list \<Rightarrow> ('w, 'r) run" where
  "get_model fw name kwargs =
     (case upstream_models fw name of
        None \<Rightarrow> raise (KeyError name)
      | Some constructor \<Rightarrow>
          (\<lambda>s. case call (constructor kwargs) s of
                 (Inr net, s') \<Rightarrow> (Inr net, s')
               | (Inl (ValueError upstream_supported), s') \<Rightarrow>
                   raise (TypeError ''argument of type module is not iterable'') s'
               | (Inl e, s') \<Rightarrow> (Inl e, s')))"

subsection \<open>\<open>prepare_model\<close> (lines 302-326)\<close>

text \<open>The subscript \<open>d[key]\<close> of a value: a dictionary has the key or raises \<open>KeyError\<close>.\<close>

definition getitem :: "pyval \<Rightarrow> string \<Rightarrow> error + pyval" where
  "getitem d key =
     (case d of
        VDict kvs \<Rightarrow> (case map_of kvs key of None \<Rightarrow> Inl (KeyError key) | Some v \<Rightarrow> Inr v)
      | _ \<Rightarrow> Inl (TypeError ''object is not subscriptable''))"

definition startswith :: "string \<Rightarrow> string \<Rightarrow> bool" where
  "startswith s prefix = (take (length prefix) s = prefix)"

text \<open>
  The body of \<open>if pretrained_model_file_path:\<close> (lines 321-324), on its own so that it
  can be spoken about: the assertion, then the loading.
\<close>

definition load_pretrained :: "('w, 'r, 'x) framework \<Rightarrow> 'r \<Rightarrow> string \<Rightarrow> ('w, unit) run" where
  "load_pretrained fw net pretrained_model_file_path =
     bind (call (isfile fw pretrained_model_file_path)) (\<lambda>is_file.
     if \<not> is_file
     then raise (AssertionError ''os.path.isfile(pretrained_model_file_path)'')
     else
       bind (emit (InfoLoadingModel pretrained_model_file_path)) (\<lambda>_.
       bind (call (torch_load fw pretrained_model_file_path)) (\<lambda>checkpoint.
       bind (lift (getitem checkpoint ''state_dict'')) (\<lambda>state_dict.
       call (load_state_dict fw net state_dict)))))"

definition prepare_model ::
  "('w, 'r, 'x) framework \<Rightarrow> string \<Rightarrow> int \<Rightarrow> pyval \<Rightarrow> string \<Rightarrow> bool \<Rightarrow> ('w, 'r) run" where
  "prepare_model fw model_name classes use_pretrained pretrained_model_file_path use_cuda =
     (let kwargs = [(''pretrained'', use_pretrained), (''classes'', VInt classes)]
      in bind (get_model fw model_name kwargs) (\<lambda>net.
         bind (if startswith model_name ''alexnet'' \<or> startswith model_name ''vgg''
               then bind (call (features_parallel fw net)) (\<lambda>_. ret net)
               else call (data_parallel fw net)) (\<lambda>net.
         bind (if use_cuda then call (net_cuda fw net) else ret net) (\<lambda>net.
         bind (if pretrained_model_file_path \<noteq> []
               then load_pretrained fw net pretrained_model_file_path
               else ret ()) (\<lambda>_.
         ret net)))))"

subsection \<open>\<open>prepare_trainer\<close> (lines 329-370)\<close>

text \<open>
  The local names \<open>start_epoch\<close> and \<open>best_prec1\<close> are bound in the resume branch only;
  the \<open>return\<close> statement reads them from left to right, and reading an unbound local
  raises \<open>UnboundLocalError\<close>.
\<close>

definition prepare_trainer ::
  "('w, 'r, 'x) framework \<Rightarrow> 'r \<Rightarrow> string \<Rightarrow> rat \<Rightarrow> rat \<Rightarrow> string \<Rightarrow> rat \<Rightarrow> int \<Rightarrow> string \<Rightarrow>
   rat \<Rightarrow> int \<Rightarrow> int \<Rightarrow> int \<Rightarrow> int \<Rightarrow> string \<Rightarrow> ('w, 'r \<times> pyval \<times> pyval \<times> pyval) run" where
  "prepare_trainer fw net optimizer_name wd momentum lr_mode lr lr_decay_period lr_decay_epoch
       lr_decay warmup_epochs batch_size num_epochs num_training_samples
       pretrained_model_file_path =
     bind (if optimizer_name = ''sgd'' then call (sgd fw net lr momentum wd False)
           else if optimizer_name = ''nag'' then call (sgd fw net lr momentum wd True)
           else raise PlainException) (\<lambda>optimizer.
     bind (if pretrained_model_file_path \<noteq> []
           then bind (call (torch_load fw pretrained_model_file_path)) (\<lambda>checkpoint.
                bind (lift (getitem checkpoint ''optimizer'')) (\<lambda>optimizer_state.
                bind (call (load_state_dict fw optimizer optimizer_state)) (\<lambda>_.
                bind (lift (getitem checkpoint ''epoch'')) (\<lambda>start_epoch.
                bind (lift (getitem checkpoint ''best_prec1'')) (\<lambda>best_prec1.
                ret (Some start_epoch, Some best_prec1))))))
           else ret (None, None)) (\<lambda>(start_epoch, best_prec1).
     bind (call (set_cudnn_benchmark fw)) (\<lambda>_.
       let lr_scheduler = VNone
       in case start_epoch of
            None \<Rightarrow> raise (UnboundLocalError ''start_epoch'')
          | Some start_epoch \<Rightarrow>
              (case best_prec1 of
                 None \<Rightarrow> raise (UnboundLocalError ''best_prec1'')
               | Some best_prec1 \<Rightarrow>
                   ret (optimizer, lr_scheduler, start_epoch, best_prec1)))))"

subsection \<open>\<open>save_params\<close> (lines 383-385)\<close>

text \<open>
  The attribute \<open>save_parameters\<close> is looked up on the network and the method is called
  with the path alone; the lookup raises \<open>AttributeError\<close> when the object has no such
  attribute.
\<close>

definition save_params :: "('w, 'r, 'x) framework \<Rightarrow> string \<Rightarrow> 'r \<Rightarrow> ('w, unit) run" where
  "save_params fw file_path net =
     (case save_parameters fw net of
        None \<Rightarrow> raise (AttributeError ''save_parameters'')
      | Some method \<Rightarrow> call (method file_path))"

subsection \<open>\<open>get_data_loader\<close> (lines 217-258)\<close>

text \<open>\<open>os.path.join\<close> of two components.\<close>

definition path_join :: "string \<Rightarrow> string \<Rightarrow> string" where
  "path_join a b =
     (if b \<noteq> [] \<and> hd b = CHR ''/'' then b
      else if a = [] \<or> last a = CHR ''/'' then a @ b
      else a @ ''/'' @ b)"

text \<open>
  \<open>image_folder_loader root train batch_size num_workers\<close> is the \<open>DataLoader\<close> over the
  \<open>ImageFolder\<close> at \<open>root\<close>, with the training transforms and shuffling when \<open>train\<close> holds
  and the validation transforms otherwise.
\<close>

definition get_data_loader ::
  "('w, 'r, 'x) framework \<Rightarrow> string \<Rightarrow> int \<Rightarrow> int \<Rightarrow>
   ('w, ('x list \<times> nat list) list \<times> ('x list \<times> nat list) list) run" where
  "get_data_loader fw data_dir batch_size num_workers =
     (let valdir = path_join data_dir ''val''
      in bind (call (image_folder_loader fw (path_join data_dir ''train'') True
                       batch_size num_workers)) (\<lambda>train_loader.
         bind (call (image_folder_loader fw valdir False batch_size num_workers)) (\<lambda>val_loader.
         ret (train_loader, val_loader))))"

subsection \<open>\<open>prepare_logger\<close> (lines 175-191) and \<open>init_rand\<close> (lines 194-207)\<close>

definition prepare_logger :: "('w, 'r, 'x) framework \<Rightarrow> string \<Rightarrow> string \<Rightarrow> ('w, unit) run" where
  "prepare_logger fw log_dir_path logging_file_name =
     (if log_dir_path \<noteq> []
      then
        let log_file_path = path_join log_dir_path logging_file_name
        in bind (call (path_exists fw log_dir_path)) (\<lambda>dir_exists.
           bind (if \<not> dir_exists
                 then bind (call (makedirs fw log_dir_path)) (\<lambda>_. ret False)
                 else bind (call (path_exists fw log_file_path)) (\<lambda>file_exists.
                      if file_exists
                      then bind (call (getsize fw log_file_path)) (\<lambda>size. ret (size > 0))
                      else ret False)) (\<lambda>log_file_exist.
           bind (call (add_file_handler fw log_file_path)) (\<lambda>_.
           if log_file_exist then emit InfoSeparator else ret ())))
      else ret ())"

definition init_rand :: "('w, 'r, 'x) framework \<Rightarrow> int \<Rightarrow> ('w, int) run" where
  "init_rand fw seed =
     bind (if seed \<le> 0 then call (randint fw)
           else bind (call (set_deterministic fw)) (\<lambda>_.
                bind (emit Warned) (\<lambda>_.
                ret seed))) (\<lambda>seed.
     bind (call (seed_all fw seed)) (\<lambda>_.
     ret seed))"

subsection \<open>\<open>parse_args\<close> (lines 25-172)\<close>

text \<open>
  One \<open>add_argument\<close> call: the option strings, the attribute it fills (\<open>dest\<close>, given or
  derived by the library from the first long option string), what it stores, the default
  and whether it is required.
\<close>

datatype arg_type = TStr | TInt | TFloat

datatype arg_action = Store arg_type | StoreTrue

record argument =
  flags :: "string list"
  dest :: string
  action :: arg_action
  default_value :: pyval
  required :: bool

definition add_argument ::
  "string list \<Rightarrow> string \<Rightarrow> arg_action \<Rightarrow> pyval \<Rightarrow> bool \<Rightarrow> argument" where
  "add_argument fs d a v r =
     \<lparr>flags = fs, dest = d, action = a, default_value = v, required = r\<rparr>"

definition parser_arguments :: "argument list" where
  "parser_arguments =
     [add_argument [''--data-dir''] ''data_dir'' (Store TStr)
        (VStr ''../imgclsmob_data/imagenet'') False,
      add_argument [''--model''] ''model'' (Store TStr) VNone True,
      add_argument [''--use-pretrained''] ''use_pretrained'' StoreTrue (VBool False) False,
      add_argument [''--resume''] ''resume'' (Store TStr) (VStr []) False,
      add_argument [''-e'', ''--evaluate''] ''evaluate'' StoreTrue (VBool False) False,
      add_argument [''--num-gpus''] ''num_gpus'' (Store TInt) (VInt 0) False,
      add_argument [''-j'', ''--num-data-workers''] ''num_workers'' (Store TInt) (VInt 4) False,
      add_argument [''--batch-size''] ''batch_size'' (Store TInt) (VInt 32) False,
      add_argument [''--num-epochs''] ''num_epochs'' (Store TInt) (VInt 3) False,
      add_argument [''--start-epoch''] ''start_epoch'' (Store TInt) (VInt 1) False,
      add_argument [''--optimizer-name''] ''optimizer_name'' (Store TStr) (VStr ''nag'') False,
      add_argument [''--lr''] ''lr'' (Store TFloat) (VFloat (1 / 10)) False,
      add_argument [''--lr-mode''] ''lr_mode'' (Store TStr) (VStr ''step'') False,
      add_argument [''--lr-decay''] ''lr_decay'' (Store TFloat) (VFloat (1 / 10)) False,
      add_argument [''--lr-decay-period''] ''lr_decay_period'' (Store TInt) (VInt 0) False,
      add_argument [''--lr-decay-epoch''] ''lr_decay_epoch'' (Store TStr) (VStr ''40,60'') False,
      add_argument [''--warmup-lr''] ''warmup_lr'' (Store TFloat) (VFloat 0) False,
      add_argument [''--warmup-epochs''] ''warmup_epochs'' (Store TInt) (VInt 0) False,
      add_argument [''--momentum''] ''momentum'' (Store TFloat) (VFloat (9 / 10)) False,
      add_argument [''--wd''] ''wd'' (Store TFloat) (VFloat (1 / 10000)) False,
      add_argument [''--log-interval''] ''log_interval'' (Store TInt) (VInt 50) False,
      add_argument [''--save-interval''] ''save_interval'' (Store TInt) (VInt 4) False,
      add_argument [''--save-dir''] ''save_dir'' (Store TStr) (VStr []) False,
      add_argument [''--logging-file-name''] ''logging_file_name'' (Store TStr)
        (VStr ''train.log'') False,
      add_argument [''--seed''] ''seed'' (Store TInt) (VInt (- 1)) False,
      add_argument [''--log-packages''] ''log_packages'' (Store TStr)
        (VStr ''torch, torchvision'') False,
      add_argument [''--log-pip-packages''] ''log_pip_packages'' (Store TStr) (VStr []) False]"

text \<open>
  The argument object is a namespace: the list of its attributes with their values.
  Reading an attribute it does not have raises \<open>AttributeError\<close>.
\<close>

type_synonym namespace = "(string \<times> pyval) list"

definition getattr :: "namespace \<Rightarrow> string \<Rightarrow> error + pyval" where
  "getattr ns name =
     (case map_of ns name of None \<Rightarrow> Inl (AttributeError name) | Some v \<Rightarrow> Inr v)"

fun setattr :: "namespace \<Rightarrow> string \<Rightarrow> pyval \<Rightarrow> namespace" where
  "setattr [] name v = [(name, v)]"
| "setattr ((name', v') # ns) name v =
     (if name' = name then (name, v) # ns else (name', v') # setattr ns name v)"

text \<open>
  The library's part of \<open>parser.parse_args()\<close> is a parameter: \<open>match_flag\<close> decides
  which declared argument a command-line token names (by its position in the list of
  the declared arguments), with the value when the token carries one (\<open>--lr=0.1\<close>), so
  that abbreviated and joined forms are covered whatever the library accepts;
  \<open>to_int\<close> and \<open>to_float\<close> are the conversions \<open>int\<close> and \<open>float\<close> that \<open>type=\<close> names
  (\<open>None\<close> where they raise). A parse error ends the program (\<open>SystemExit\<close>).
\<close>

record argparse =
  match_flag :: "argument list \<Rightarrow> string \<Rightarrow> (nat \<times> string option) option"
  to_int :: "string \<Rightarrow> int option"
  to_float :: "string \<Rightarrow> rat option"

definition convert :: "argparse \<Rightarrow> arg_type \<Rightarrow> string \<Rightarrow> pyval option" where
  "convert lib ty v =
     (case ty of
        TStr \<Rightarrow> Some (VStr v)
      | TInt \<Rightarrow> map_option VInt (to_int lib v)
      | TFloat \<Rightarrow> map_option VFloat (to_float lib v))"

fun parse_tokens ::
  "argparse \<Rightarrow> argument list \<Rightarrow> string list \<Rightarrow> namespace \<times> string list \<Rightarrow>
   error + namespace \<times> string list" where
  "parse_tokens lib arguments [] (ns, seen) = Inr (ns, seen)"
| "parse_tokens lib arguments (token # rest) (ns, seen) =
     (case match_flag lib arguments token of
        None \<Rightarrow> Inl (SystemExit ''unrecognized arguments'')
      | Some (k, explicit) \<Rightarrow>
          if \<not> k < length arguments then Inl (SystemExit ''unrecognized arguments'')
          else
            let a = arguments ! k
            in case action a of
                 StoreTrue \<Rightarrow>
                   (case explicit of
                      Some v \<Rightarrow> Inl (SystemExit ''ignored explicit argument'')
                    | None \<Rightarrow>
                        parse_tokens lib arguments rest
                          (setattr ns (dest a) (VBool True), dest a # seen))
               | Store ty \<Rightarrow>
                   (case explicit of
                      Some v \<Rightarrow>
                        (case convert lib ty v of
                           None \<Rightarrow> Inl (SystemExit ''invalid value'')
                         | Some pv \<Rightarrow>
                             parse_tokens lib arguments rest
                               (setattr ns (dest a) pv, dest a # seen))
                    | None \<Rightarrow>
                        (case rest of
                           [] \<Rightarrow> Inl (SystemExit ''expected one argument'')
                         | v # rest' \<Rightarrow>
                             (case convert lib ty v of
                                None \<Rightarrow> Inl (SystemExit ''invalid value'')
                              | Some pv \<Rightarrow>
                                  parse_tokens lib arguments rest'
                                    (setattr ns (dest a) pv, dest a # seen)))))"

text \<open>
  \<open>parse_args\<close> reads \<open>sys.argv[1:]\<close>. The namespace starts with every declared
  argument's default; a required argument that no token named is an error.
\<close>

definition parse_args :: "argparse \<Rightarrow> string list \<Rightarrow> error + namespace" where
  "parse_args lib argv =
     (case parse_tokens lib parser_arguments (drop 1 argv)
             (map (\<lambda>a. (dest a, default_value a)) parser_arguments, []) of
        Inl e \<Rightarrow> Inl e
      | Inr (args, seen) \<Rightarrow>
          if list_ex (\<lambda>a. required a \<and> dest a \<notin> set seen) parser_arguments
          then Inl (SystemExit ''the following arguments are required'')
          else Inr args)"

subsection \<open>\<open>main\<close> (lines 584-674)\<close>

text \<open>
  Reading an attribute where the code goes on to use it as a number or a string: a value
  of another type raises \<open>TypeError\<close> at that use.
\<close>

definition attr_int :: "namespace \<Rightarrow> string \<Rightarrow> error + int" where
  "attr_int ns name =
     (case getattr ns name of
        Inl e \<Rightarrow> Inl e
      | Inr (VInt i) \<Rightarrow> Inr i
      | Inr _ \<Rightarrow> Inl (TypeError name))"

definition attr_float :: "namespace \<Rightarrow> string \<Rightarrow> error + rat" where
  "attr_float ns name =
     (case getattr ns name of
        Inl e \<Rightarrow> Inl e
      | Inr (VFloat x) \<Rightarrow> Inr x
      | Inr (VInt i) \<Rightarrow> Inr (of_int i)
      | Inr _ \<Rightarrow> Inl (TypeError name))"

definition attr_str :: "namespace \<Rightarrow> string \<Rightarrow> error + string" where
  "attr_str ns name =
     (case getattr ns name of
        Inl e \<Rightarrow> Inl e
      | Inr (VStr s) \<Rightarrow> Inr s
      | Inr _ \<Rightarrow> Inl (TypeError name))"

text \<open>
  \<open>str.strip()\<close>, \<open>str.replace(' ', '')\<close> and \<open>str.split(',')\<close>. The strings of the model
  are lists of the 256 characters of \<open>char\<close>, the code points 0 to 255; \<open>is_space\<close> holds of
  those among them that \<open>str.strip()\<close> removes: the ASCII white space, the separators
  \<open>0x1C\<close> to \<open>0x1F\<close>, the next-line character \<open>0x85\<close> and the no-break space \<open>0xA0\<close>.
\<close>

definition is_space :: "char \<Rightarrow> bool" where
  "is_space c =
     (c \<in> set [CHR '' '', CHR 0x09, CHR 0x0A, CHR 0x0B, CHR 0x0C, CHR 0x0D,
                CHR 0x1C, CHR 0x1D, CHR 0x1E, CHR 0x1F, CHR 0x85, CHR 0xA0])"

definition strip :: "string \<Rightarrow> string" where
  "strip s = rev (dropWhile is_space (rev (dropWhile is_space s)))"

definition remove_spaces :: "string \<Rightarrow> string" where
  "remove_spaces s = filter (\<lambda>c. c \<noteq> CHR '' '') s"

fun split_commas :: "string \<Rightarrow> string list" where
  "split_commas [] = [[]]"
| "split_commas (c # cs) =
     (if c = CHR '','' then [] # split_commas cs
      else case split_commas cs of
             [] \<Rightarrow> [[c]]
           | w # ws \<Rightarrow> (c # w) # ws)"

text \<open>
  Lines 603-674: everything after the read of \<open>args.convert_to_mxnet\<close>, as a function of
  the namespace and of the two values \<open>prepare_pt_context\<close> gave. The keyword arguments
  of a call are evaluated in the order they are written.
\<close>

definition main_from_model ::
  "('w, 'r, 'x) framework \<Rightarrow> namespace \<Rightarrow> bool \<Rightarrow> int \<Rightarrow> ('w, unit) run" where
  "main_from_model fw args use_cuda batch_size =
     (let classes = 1000
      in bind (lift (attr_str args ''model'')) (\<lambda>model_name.
         bind (lift (getattr args ''use_pretrained'')) (\<lambda>use_pretrained.
         bind (lift (attr_str args ''resume'')) (\<lambda>resume.
         bind (prepare_model fw model_name classes use_pretrained (strip resume) use_cuda) (\<lambda>net.
         bind (lift (attr_str args ''data_dir'')) (\<lambda>data_dir.
         bind (lift (attr_int args ''num_workers'')) (\<lambda>num_workers.
         bind (get_data_loader fw data_dir batch_size num_workers) (\<lambda>(train_data, val_data).
         bind (lift (getattr args ''evaluate'')) (\<lambda>evaluate.
         if truthy evaluate
         then
           bind (lift (getattr args ''use_pretrained'')) (\<lambda>use_pretrained.
           bind (if truthy use_pretrained then ret True
                 else bind (lift (attr_str args ''resume'')) (\<lambda>resume.
                      ret (strip resume \<noteq> []))) (\<lambda>supplied.
           if \<not> supplied
           then raise (AssertionError ''args.use_pretrained or args.resume.strip()'')
           else test fw net val_data use_cuda))
         else
           let num_training_samples = 1281167
           in bind (lift (attr_str args ''optimizer_name'')) (\<lambda>optimizer_name.
              bind (lift (attr_float args ''wd'')) (\<lambda>wd.
              bind (lift (attr_float args ''momentum'')) (\<lambda>momentum.
              bind (lift (attr_str args ''lr_mode'')) (\<lambda>lr_mode.
              bind (lift (attr_float args ''lr'')) (\<lambda>lr.
              bind (lift (attr_int args ''lr_decay_period'')) (\<lambda>lr_decay_period.
              bind (lift (attr_str args ''lr_decay_epoch'')) (\<lambda>lr_decay_epoch.
              bind (lift (attr_float args ''lr_decay'')) (\<lambda>lr_decay.
              bind (lift (attr_int args ''warmup_epochs'')) (\<lambda>warmup_epochs.
              bind (lift (attr_int args ''num_epochs'')) (\<lambda>num_epochs.
              bind (lift (attr_str args ''resume'')) (\<lambda>resume.
              bind (prepare_trainer fw net optimizer_name wd momentum lr_mode lr lr_decay_period
                      lr_decay_epoch lr_decay warmup_epochs batch_size num_epochs
                      num_training_samples (strip resume))
                (\<lambda>(optimizer, lr_scheduler, start_epoch, best_prec1).
              let args = setattr args ''start_epoch'' start_epoch
              in bind (lift (getattr args ''save_dir'')) (\<lambda>save_dir.
                 bind (if truthy save_dir
                       then bind (lift (getattr args ''save_interval'')) (\<lambda>save_interval.
                            ret (truthy save_interval))
                       else ret False) (\<lambda>with_saver.
                 bind (if with_saver
                       then
                         bind (lift (attr_str args ''model'')) (\<lambda>model_name.
                         bind (lift (attr_str args ''save_dir'')) (\<lambda>save_dir.
                         bind (lift (getattr args ''save_interval'')) (\<lambda>save_interval.
                         bind (lift (getattr args ''num_epochs'')) (\<lambda>num_epochs.
                         bind (call (new_saver fw
                                 [(''checkpoint_file_name_prefix'', VStr (''imagenet_'' @ model_name)),
                                  (''last_checkpoint_file_name_suffix'', VStr ''last''),
                                  (''best_checkpoint_file_name_suffix'', VNone),
                                  (''last_checkpoint_dir_path'', VStr save_dir),
                                  (''best_checkpoint_dir_path'', VNone),
                                  (''last_checkpoint_file_count'', VInt 2),
                                  (''best_checkpoint_file_count'', VInt 2),
                                  (''checkpoint_file_save_callback'', VOpaque ''save_params''),
                                  (''save_interval'', save_interval),
                                  (''num_epochs'', num_epochs),
                                  (''param_names'',
                                     VList [VStr ''Val.Top1'', VStr ''Train.Top1'',
                                            VStr ''Val.Top5'', VStr ''Train.Loss'']),
                                  (''acc_ind'', VInt 2),
                                  (''score_log_file_path'',
                                     VStr (path_join save_dir ''score.log'')),
                                  (''score_log_attempt_value'', VInt 1),
                                  (''best_map_log_file_path'',
                                     VStr (path_join save_dir ''best_map.log''))])) (\<lambda>saver.
                         ret (Some saver))))))
                       else ret None) (\<lambda>lp_saver.
                 bind (lift (attr_int args ''num_epochs'')) (\<lambda>num_epochs.
                 bind (lift (getattr args ''start_epoch'')) (\<lambda>start_epoch1.
                 bind (lift (attr_int args ''log_interval'')) (\<lambda>log_interval.
                 train_net fw batch_size num_epochs start_epoch1 train_data val_data net
                   optimizer lr_scheduler lp_saver log_interval use_cuda)))))))))))))))))))))))))))"

text \<open>
  \<open>main\<close>, from \<open>parse_args\<close> to the read of \<open>args.convert_to_mxnet\<close>, and from there
  \<open>main_from_model\<close>. \<open>argv\<close> is \<open>sys.argv\<close>.
\<close>

definition main :: "('w, 'r, 'x) framework \<Rightarrow> argparse \<Rightarrow> string list \<Rightarrow> ('w, unit) run" where
  "main fw lib argv =
     bind (lift (parse_args lib argv)) (\<lambda>args.
     bind (lift (attr_int args ''seed'')) (\<lambda>seed.
     bind (init_rand fw seed) (\<lambda>seed.
       let args = setattr args ''seed'' (VInt seed)
       in bind (lift (attr_str args ''save_dir'')) (\<lambda>save_dir.
          bind (lift (attr_str args ''logging_file_name'')) (\<lambda>logging_file_name.
          bind (prepare_logger fw save_dir logging_file_name) (\<lambda>_.
          bind (emit (InfoCommandLine argv)) (\<lambda>_.
          bind (emit (InfoArguments args)) (\<lambda>_.
          bind (lift (attr_str args ''log_packages'')) (\<lambda>log_packages.
          bind (lift (attr_str args ''log_pip_packages'')) (\<lambda>log_pip_packages.
          bind (call (get_env_stats fw (split_commas (remove_spaces log_packages))
                        (split_commas (remove_spaces log_pip_packages)))) (\<lambda>env_stats.
          bind (emit (InfoEnvStats env_stats)) (\<lambda>_.
          bind (lift (attr_int args ''num_gpus'')) (\<lambda>num_gpus.
          bind (lift (attr_int args ''batch_size'')) (\<lambda>batch_size.
            let (use_cuda, batch_size) = prepare_pt_context num_gpus batch_size
            in bind (lift (getattr args ''convert_to_mxnet'')) (\<lambda>convert_to_mxnet.
                 let batch_size = (if truthy convert_to_mxnet then 1 else batch_size)
                 in main_from_model fw args use_cuda batch_size)))))))))))))))"

subsection \<open>Phases of a training run\<close>

text \<open>
  The journal entries that mark the phases of \<open>train_net\<close>: \<open>net.train()\<close> opens a
  training epoch and the line \<open>[Epoch e] training\<close> closes it; \<open>net.eval()\<close> opens a
  validation pass and the line \<open>[Epoch e] validation\<close>, written when \<open>validate\<close> has
  returned, closes it; the saver's callback is a phase of its own.
\<close>

datatype phase =
    TrainingStarted
  | TrainingDone int
  | ValidationStarted
  | ValidationDone int
  | SaverCall int

fun phase_of :: "event \<Rightarrow> phase list" where
  "phase_of NetTrain = [TrainingStarted]"
| "phase_of (InfoEpochTraining e err loss) = [TrainingDone e]"
| "phase_of NetEval = [ValidationStarted]"
| "phase_of (InfoEpochValidation e err1 err5) = [ValidationDone e]"
| "phase_of (EpochTestEnd e params) = [SaverCall e]"
| "phase_of _ = []"

definition phases :: "event list \<Rightarrow> phase list" where
  "phases evs = concat (map phase_of evs)"

text \<open>The training epochs a list of phases reports as completed, in their order.\<close>

fun trained_epochs :: "phase list \<Rightarrow> int list" where
  "trained_epochs [] = []"
| "trained_epochs (TrainingDone e # ps) = e # trained_epochs ps"
| "trained_epochs (p # ps) = trained_epochs ps"

text \<open>The journal entries of \<open>main\<close> up to and including its logging of the environment.\<close>

fun logging_stage :: "event \<Rightarrow> bool" where
  "logging_stage Warned = True"
| "logging_stage InfoSeparator = True"
| "logging_stage (InfoCommandLine argv) = True"
| "logging_stage (InfoArguments args) = True"
| "logging_stage (InfoEnvStats stats) = True"
| "logging_stage _ = False"

subsection \<open>Properties of runs\<close>

text \<open>
  \<open>returns m\<close>: from every state, \<open>m\<close> returns normally. \<open>fails m\<close>: from every state, \<open>m\<close>
  raises; \<open>raises e m\<close>: it raises the exception \<open>e\<close>. \<open>reaches m ps\<close>: whatever \<open>m\<close> does,
  the phases it has added to the journal are the first phases of \<open>ps\<close>, and all of \<open>ps\<close>
  when it returns normally. \<open>journals P m\<close>: whatever \<open>m\<close> does, it only appends entries
  satisfying \<open>P\<close>.
\<close>

definition returns :: "('w, 'a) run \<Rightarrow> bool" where
  "returns m = (\<forall>s. \<exists>x s'. m s = (Inr x, s'))"

definition fails :: "('w, 'a) run \<Rightarrow> bool" where
  "fails m = (\<forall>s. \<exists>e s'. m s = (Inl e, s'))"

definition raises :: "error \<Rightarrow> ('w, 'a) run \<Rightarrow> bool" where
  "raises e m = (\<forall>s. \<exists>s'. m s = (Inl e, s'))"

definition reaches :: "('w, 'a) run \<Rightarrow> phase list \<Rightarrow> bool" where
  "reaches m ps =
     (\<forall>s r s'. m s = (r, s') \<longrightarrow>
        (\<exists>evs rest. journal s' = journal s @ evs \<and> ps = phases evs @ rest \<and>
                    (isl r \<or> rest = [])))"

definition journals :: "(event \<Rightarrow> bool) \<Rightarrow> ('w, 'a) run \<Rightarrow> bool" where
  "journals P m =
     (\<forall>s r s'. m s = (r, s') \<longrightarrow> (\<exists>evs. journal s' = journal s @ evs \<and> list_all P evs))"

subsection \<open>A small framework to run the driver on\<close>

text \<open>
  An instance of the framework for evaluating the driver on concrete inputs. Its world is
  the file system, a list of paths with the value stored at each; loading a file gives
  back the value stored. Samples are numbers and the network scores six classes: sample 0
  has class 1 on top; every other sample has class 0 on top and class 4 second. As with
  the modules of \<open>torch\<close>, a network has no attribute \<open>save_parameters\<close>; as with the
  constructors of \<open>torchvision\<close>, the upstream constructor takes no keyword \<open>classes\<close>.
\<close>

definition example_scores :: "nat \<Rightarrow> rat list" where
  "example_scores x =
     (if x = 0 then [1 / 10, 5 / 10, 2 / 10, 1 / 20, 3 / 20, 0]
      else [6 / 10, 1 / 10, 1 / 20, 1 / 20, 3 / 20, 1 / 20])"

definition example_framework :: "((string \<times> pyval) list, nat, nat) framework" where
  "example_framework = \<lparr>
     randint = (\<lambda>w. (Inr 1234, w)),
     seed_all = (\<lambda>seed w. (Inr (), w)),
     set_deterministic = (\<lambda>w. (Inr (), w)),
     path_exists = (\<lambda>path w. (Inr (map_of w path \<noteq> None), w)),
     makedirs = (\<lambda>path w. (Inr (), w)),
     getsize = (\<lambda>path w. (Inr 0, w)),
     add_file_handler = (\<lambda>path w. (Inr (), w)),
     get_env_stats = (\<lambda>packages pip_packages w. (Inr [], w)),
     upstream_models =
       (\<lambda>name. if name = ''resnet18''
               then Some (\<lambda>kwargs w.
                      if ''classes'' \<in> set (map fst kwargs)
                      then (Inl (TypeError ''unexpected keyword argument classes''), w)
                      else (Inr 0, w))
               else None),
     slk_constructor = (\<lambda>name kwargs w. (Inr 0, w)),
     data_parallel = (\<lambda>net w. (Inr net, w)),
     features_parallel = (\<lambda>net w. (Inr (), w)),
     net_cuda = (\<lambda>net w. (Inr net, w)),
     isfile = (\<lambda>path w. (Inr (map_of w path \<noteq> None), w)),
     torch_load =
       (\<lambda>path w. case map_of w path of
                    None \<Rightarrow> (Inl (FileNotFoundError path), w)
                  | Some v \<Rightarrow> (Inr v, w)),
     load_state_dict = (\<lambda>obj state w. (Inr (), w)),
     image_folder_loader =
       (\<lambda>root train batch_size num_workers w. (Inr [([0, 1], [1, 4])], w)),
     sgd = (\<lambda>net lr momentum wd nesterov w. (Inr 1, w)),
     set_cudnn_benchmark = (\<lambda>w. (Inr (), w)),
     collect_params = (\<lambda>net w. (Inr [Some [3, 4], None, Some [5]], w)),
     save_parameters = (\<lambda>net. None),
     net_train = (\<lambda>net w. (Inr (), w)),
     net_eval = (\<lambda>net w. (Inr (), w)),
     net_call = (\<lambda>net input w. (Inr (map example_scores input), w)),
     cross_entropy_loss = (\<lambda>w. (Inr 2, w)),
     loss_call = (\<lambda>L output target w. (Inr 3, w)),
     zero_grad = (\<lambda>optimizer w. (Inr (), w)),
     backward = (\<lambda>loss w. (Inr (), w)),
     optimizer_step = (\<lambda>optimizer w. (Inr (), w)),
     loss_scalars = (\<lambda>loss w. (Inr [1 / 2], w)),
     new_saver = (\<lambda>kwargs w. (Inr 4, w)),
     epoch_test_end_callback = (\<lambda>saver epoch1 params net w. (Inr (), w)),
     best_eval_metric = (\<lambda>saver w. (Inr (VFloat 0, VInt 1), w))
   \<rparr>"

definition example_batch :: "(nat list \<times> nat list) list" where
  "example_batch = [([0, 1], [1, 4])]"

definition empty_machine :: "(string \<times> pyval) list machine" where
  "empty_machine = \<lparr>world = [], journal = []\<rparr>"

text \<open>
  An instance of the library's parsing: a token names an argument when it is one of its
  option strings, and numbers are plain decimal integers.
\<close>

fun flag_index :: "argument list \<Rightarrow> string \<Rightarrow> nat option" where
  "flag_index [] token = None"
| "flag_index (a # arguments) token =
     (if token \<in> set (flags a) then Some 0 else map_option Suc (flag_index arguments token))"

definition decimal :: "string \<Rightarrow> nat option" where
  "decimal s =
     (if s = [] \<or> list_ex (\<lambda>c. \<not> (48 \<le> (of_char c :: nat) \<and> (of_char c :: nat) \<le> 57)) s
      then None
      else Some (foldl (\<lambda>n c. 10 * n + (of_char c - 48)) 0 s))"

definition decimal_int :: "string \<Rightarrow> int option" where
  "decimal_int s =
     (case s of
        [] \<Rightarrow> None
      | c # cs \<Rightarrow> if c = CHR ''-'' then map_option (\<lambda>n. - int n) (decimal cs)
                  else map_option int (decimal s))"

definition exact_argparse :: argparse where
  "exact_argparse = \<lparr>
     match_flag = (\<lambda>arguments token. map_option (\<lambda>k. (k, None)) (flag_index arguments token)),
     to_int = decimal_int,
     to_float = (\<lambda>s. map_option of_int (decimal_int s))
   \<rparr>"


definition evaluate_argv :: "string list" where
  "evaluate_argv = [''train_pt.py'', ''--model'', ''resnet18'', ''--evaluate'']"

subsection \<open>Namespaces that \<open>parse_args\<close> produces\<close>

text \<open>
  What an attribute filled for a declared argument can hold: the default, or a value its
  action stores. A namespace is \<open>parsed\<close> when its attributes are the declared
  destinations, in their order, each holding such a value.
\<close>

fun stores :: "arg_action \<Rightarrow> pyval \<Rightarrow> bool" where
  "stores StoreTrue (VBool b) = b"
| "stores (Store TStr) (VStr s) = True"
| "stores (Store TInt) (VInt i) = True"
| "stores (Store TFloat) (VFloat x) = True"
| "stores _ _ = False"

definition conforms :: "argument \<Rightarrow> pyval \<Rightarrow> bool" where
  "conforms a v = (v = default_value a \<or> stores (action a) v)"

definition parsed :: "namespace \<Rightarrow> bool" where
  "parsed ns =
     (map fst ns = map dest parser_arguments \<and>
      list_all (\<lambda>(name, v). list_all (\<lambda>a. dest a \<noteq> name \<or> conforms a v) parser_arguments) ns)"

section \<open>Verification\<close>

subsection \<open>Rules for runs\<close>

lemmas run_defs = ret_def raise_def lift_def bind_def call_def emit_def

lemma bind_ret: "bind (ret x) f = f x"
  by (simp add: bind_def ret_def)

lemma bind_lift_Inr: "bind (lift (Inr x)) f = f x"
  by (simp add: bind_def lift_def)

lemma bind_lift_Inl: "bind (lift (Inl e)) f = raise e"
  by (simp add: bind_def lift_def raise_def)

lemma bind_Inr: "m s = (Inr x, s') \<Longrightarrow> bind m f s = f x s'"
  by (simp add: bind_def)

lemma phases_append: "phases (xs @ ys) = phases xs @ phases ys"
  by (simp add: phases_def)

lemma reaches_ret: "reaches (ret x) []"
  by (simp add: reaches_def ret_def phases_def)

lemma reaches_raise: "reaches (raise e) ps"
  by (simp add: reaches_def raise_def phases_def)

lemma reaches_lift: "reaches (lift r) []"
  by (simp add: reaches_def lift_def phases_def)

lemma reaches_call: "reaches (call f) []"
  by (auto simp: reaches_def call_def phases_def split: prod.splits)

lemma reaches_emit: "reaches (emit ev) (phase_of ev)"
  by (simp add: reaches_def emit_def phases_def)

lemma reaches_bind:
  assumes "reaches m ps" and "\<And>x. reaches (f x) qs"
  shows "reaches (bind m f) (ps @ qs)"
  unfolding reaches_def
proof (intro allI impI)
  fix s r s''
  assume run: "bind m f s = (r, s'')"
  obtain r1 s1 where m: "m s = (r1, s1)" by (cases "m s")
  with assms(1) obtain evs rest
    where evs: "journal s1 = journal s @ evs" "ps = phases evs @ rest" "isl r1 \<or> rest = []"
    unfolding reaches_def by blast
  show "\<exists>evs rest. journal s'' = journal s @ evs \<and> ps @ qs = phases evs @ rest \<and>
                    (isl r \<or> rest = [])"
  proof (cases r1)
    case (Inl e)
    with run m have "s'' = s1" and "r = Inl e" by (simp_all add: bind_def)
    with evs have "journal s'' = journal s @ evs" and "ps @ qs = phases evs @ (rest @ qs)"
      and "isl r"
      by simp_all
    then show ?thesis by blast
  next
    case (Inr x)
    with run m have "f x s1 = (r, s'')" by (simp add: bind_def)
    with assms(2) obtain evs' rest'
      where evs': "journal s'' = journal s1 @ evs'" "qs = phases evs' @ rest'"
        "isl r \<or> rest' = []"
      unfolding reaches_def by blast
    from Inr evs(3) have "rest = []" by simp
    with evs evs' have "journal s'' = journal s @ (evs @ evs')"
      and "ps @ qs = phases (evs @ evs') @ rest'"
      by (simp_all add: phases_append)
    with evs'(3) show ?thesis by blast
  qed
qed

lemma reaches_bind_nil:
  assumes "reaches m []" and "\<And>x. reaches (f x) ps"
  shows "reaches (bind m f) ps"
  using reaches_bind [OF assms] by simp

lemma reaches_prod: "(\<And>a b. reaches (f a b) ps) \<Longrightarrow> reaches (case p of (a, b) \<Rightarrow> f a b) ps"
  by (cases p) simp

lemma reaches_prod2:
  "(\<And>x y. reaches (f x y b) ps) \<Longrightarrow> reaches ((case a of (x, y) \<Rightarrow> f x y) b) ps"
  by (cases a) simp

lemma reaches_if: "reaches m ps \<Longrightarrow> reaches n ps \<Longrightarrow> reaches (if c then m else n) ps"
  by simp

text \<open>A step that raises ends the run: what follows it adds nothing.\<close>

lemma reaches_fails:
  assumes "fails m" and "reaches m ps"
  shows "reaches (bind m f) ps"
  unfolding reaches_def
proof (intro allI impI)
  fix s r s'
  assume run: "bind m f s = (r, s')"
  from assms(1) obtain e s1 where m: "m s = (Inl e, s1)"
    unfolding fails_def by blast
  with run have r: "r = Inl e" and s': "s' = s1" by (simp_all add: bind_def)
  from assms(2) m obtain evs rest where "journal s1 = journal s @ evs" and "ps = phases evs @ rest"
    unfolding reaches_def by blast
  with r s'
  show "\<exists>evs rest. journal s' = journal s @ evs \<and> ps = phases evs @ rest \<and> (isl r \<or> rest = [])"
    by auto
qed

lemma returns_emit: "returns (emit ev)"
  by (simp add: returns_def emit_def)

lemma returns_lift: "returns (lift (Inr x))"
  by (simp add: returns_def lift_def)

lemma fails_raise: "fails (raise e)"
  by (simp add: fails_def raise_def)

lemma fails_bind: "(\<And>x. fails (f x)) \<Longrightarrow> fails (bind m f)"
  unfolding fails_def bind_def
  by (auto split: prod.splits sum.splits)

lemma fails_bind_left:
  assumes "fails m"
  shows "fails (bind m f)"
  unfolding fails_def
proof
  fix s
  from assms obtain e s' where "m s = (Inl e, s')"
    unfolding fails_def by blast
  then show "\<exists>e s'. bind m f s = (Inl e, s')"
    by (simp add: bind_def)
qed

lemma fails_prod: "(\<And>a b. fails (f a b)) \<Longrightarrow> fails (case p of (a, b) \<Rightarrow> f a b)"
  by (cases p) simp

lemma returns_iff: "returns m = (\<forall>s. \<not> isl (fst (m s)))"
proof
  assume "returns m"
  then show "\<forall>s. \<not> isl (fst (m s))"
    unfolding returns_def by (metis fst_conv sum.disc(2))
next
  assume r: "\<forall>s. \<not> isl (fst (m s))"
  show "returns m"
    unfolding returns_def
  proof
    fix s
    from r have "\<not> isl (fst (m s))" ..
    then obtain x where "fst (m s) = Inr x" by (cases "fst (m s)") simp_all
    then have "m s = (Inr x, snd (m s))" by (metis prod.collapse)
    then show "\<exists>x s'. m s = (Inr x, s')" by blast
  qed
qed

subsection \<open>\<open>prepare_pt_context\<close>\<close>



text \<open>
  C10. \<open>prepare_pt_context\<close> returns \<open>use_cuda\<close> true exactly when \<open>num_gpus > 0\<close>, and the
  batch size it returns is the per-device batch size times \<open>max(1, num_gpus)\<close>.
\<close>

theorem prepare_pt_context_result:
  "fst (prepare_pt_context num_gpus batch_size) = (num_gpus > 0) \<and>
   snd (prepare_pt_context num_gpus batch_size) = batch_size * max 1 num_gpus"
  by (simp add: prepare_pt_context_def)

subsection \<open>\<open>AverageMeter\<close>\<close>

lemma update_ok:
  "count m + n \<noteq> 0 \<Longrightarrow>
   update m v n =
     Inr (m\<lparr>val := v, sum_m := sum_m m + v * of_int n, count := count m + n,
            avg := (sum_m m + v * of_int n) / of_int (count m + n)\<rparr>)"
  by (simp add: update_def Let_def)

lemma updates_invariant:
  "0 \<le> count m \<Longrightarrow> list_all (\<lambda>(v, n). 0 < n) us \<Longrightarrow>
   \<exists>m'. updates m us = Inr m' \<and>
        count m' = count m + sum_list (map snd us) \<and>
        sum_m m' = sum_m m + sum_list (map (\<lambda>(v, n). v * of_int n) us) \<and>
        val m' = (if us = [] then val m else fst (last us)) \<and>
        avg m' = (if us = [] then avg m else sum_m m' / of_int (count m')) \<and>
        0 \<le> count m'"
proof (induction us arbitrary: m)
  case Nil
  then show ?case by simp
next
  case (Cons a us)
  obtain v n where a: "a = (v, n)" by (cases a)
  from Cons.prems a have n: "0 < n" and rest: "list_all (\<lambda>(v, n). 0 < n) us" by simp_all
  let ?m1 = "m\<lparr>val := v, sum_m := sum_m m + v * of_int n, count := count m + n,
                avg := (sum_m m + v * of_int n) / of_int (count m + n)\<rparr>"
  from Cons.prems(1) n have nz: "count m + n \<noteq> 0" by simp
  have step: "update m v n = Inr ?m1" using nz by (rule update_ok)
  have c1: "0 \<le> count ?m1" using Cons.prems(1) n by simp
  from Cons.IH [OF c1 rest] obtain m' where
    m': "updates ?m1 us = Inr m'"
      "count m' = count ?m1 + sum_list (map snd us)"
      "sum_m m' = sum_m ?m1 + sum_list (map (\<lambda>(v, n). v * of_int n) us)"
      "val m' = (if us = [] then val ?m1 else fst (last us))"
      "avg m' = (if us = [] then avg ?m1 else sum_m m' / of_int (count m'))"
      "0 \<le> count m'"
    by blast
  show ?case
    using m' step a by (auto simp: algebra_simps)
qed

text \<open>
  C9. After \<open>reset\<close> the four attributes are zero. After any sequence of \<open>update(val, n)\<close>
  calls on a reset meter, every \<open>n\<close> positive, no call has raised, \<open>count\<close> is the total of
  the \<open>n\<close>, \<open>sum\<close> the total of the \<open>val * n\<close>, \<open>val\<close> the value of the last call and
  \<open>avg\<close> is \<open>sum / count\<close> (both \<open>val\<close> and \<open>avg\<close> are still zero when there was no call).
\<close>

theorem AverageMeter_invariant:
  assumes "list_all (\<lambda>(v, n). 0 < n) us"
  shows "val (reset self) = 0 \<and> avg (reset self) = 0 \<and> sum_m (reset self) = 0 \<and>
         count (reset self) = 0 \<and>
         (\<exists>m. updates (reset self) us = Inr m \<and>
              count m = sum_list (map snd us) \<and>
              sum_m m = sum_list (map (\<lambda>(v, n). v * of_int n) us) \<and>
              val m = (if us = [] then 0 else fst (last us)) \<and>
              avg m = (if us = [] then 0 else sum_m m / of_int (count m)))"
proof -
  have zero: "val (reset self) = 0" "avg (reset self) = 0" "sum_m (reset self) = 0"
    "count (reset self) = 0"
    by (simp_all add: reset_def)
  then have "0 \<le> count (reset self)" by simp
  from updates_invariant [OF this assms] zero show ?thesis by auto
qed

theorem AverageMeter_invariant_witness:
  "list_all (\<lambda>(v, n). 0 < n) [(1 / 2, 2), (3, 4 :: int)] \<and>
   (\<exists>m. updates (reset \<lparr>val = 7, avg = 7, sum_m = 21, count = 3\<rparr>) [(1 / 2, 2), (3, 4)] = Inr m \<and>
        count m = 6 \<and> sum_m m = 13 \<and> val m = 3 \<and> avg m = 13 / 6)"
proof -
  have pos: "list_all (\<lambda>(v, n). 0 < n) [(1 / 2 :: rat, 2), (3, 4 :: int)]" by simp
  from AverageMeter_invariant [OF pos, of "\<lparr>val = 7, avg = 7, sum_m = 21, count = 3\<rparr>"]
  obtain m where "updates (reset \<lparr>val = 7, avg = 7, sum_m = 21, count = 3\<rparr>)
                    [(1 / 2, 2), (3, 4)] = Inr m"
    and "count m = 6" and "sum_m m = 13" and "val m = 3" and "avg m = sum_m m / of_int (count m)"
    by auto
  then show ?thesis using pos by auto
qed

subsection \<open>\<open>validate\<close>\<close>

lemma count_in_distinct:
  "distinct p \<Longrightarrow> length (filter (\<lambda>c. c = t) p) = (if t \<in> set p then 1 else 0)"
  by (induction p) auto

lemma distinct_topk_row: "distinct (topk_row k row)"
proof -
  let ?ps = "zip row [0 ..< length row]"
  have "distinct (map snd ?ps)" by simp
  then have "distinct ?ps \<and> inj_on snd (set ?ps)"
    unfolding distinct_map .
  then have "distinct ?ps" and inj: "inj_on snd (set ?ps)"
    by simp_all
  then have "distinct (map snd (sort_key (\<lambda>(s, i). - s) ?ps))"
    by (simp add: distinct_map)
  then show ?thesis
    unfolding topk_row_def by (rule distinct_take)
qed

lemma take_topk_row: "k \<le> maxk \<Longrightarrow> take k (topk_row maxk row) = topk_row k row"
  by (simp add: topk_row_def min_def)

lemma sum_indicator:
  "sum_list (map (\<lambda>x. if P x then 1 else 0) xs) = length (filter P xs)"
  by (induction xs) simp_all

lemma correct_k_eq:
  assumes "k \<le> maxk"
  shows "correct_k k (map (topk_row maxk) output) target =
         length (filter (\<lambda>(row, t). t \<in> set (topk_row k row)) (zip output target))"
proof -
  have "correct_k k (map (topk_row maxk) output) target =
        sum_list (map (\<lambda>(row, t). length (filter (\<lambda>c. c = t) (take k (topk_row maxk row))))
                    (zip output target))"
    by (simp add: correct_k_def zip_map1 comp_def split_def)
  also have "\<dots> = sum_list (map (\<lambda>(row, t). if t \<in> set (topk_row k row) then 1 else 0)
                    (zip output target))"
    using assms by (simp add: take_topk_row count_in_distinct distinct_topk_row)
  also have "\<dots> = length (filter (\<lambda>(row, t). t \<in> set (topk_row k row)) (zip output target))"
    using sum_indicator [of "\<lambda>(row, t). t \<in> set (topk_row k row)" "zip output target"]
    by (simp add: split_def)
  finally show ?thesis .
qed

lemma right_k_append: "right_k k (xs @ ys) = right_k k xs + right_k k ys"
  by (simp add: right_k_def)

lemma accuracy_1_5:
  assumes "length target = length output" and "output \<noteq> []"
    and "list_all (\<lambda>row. 5 \<le> length row) output"
  shows "accuracy output target [1, 5] =
           Inr [of_nat (right_k 1 (zip output target)) * (100 / of_nat (length target)),
                of_nat (right_k 5 (zip output target)) * (100 / of_nat (length target))]"
proof -
  from assms(3) have "\<not> list_ex (\<lambda>row. length row < 5) output"
    by (auto simp: list_ex_iff list_all_iff)
  moreover have "fold max [1, 5 :: nat] 0 = 5" by simp
  moreover from assms(1,2) have "length target \<noteq> 0" by simp
  ultimately show ?thesis
    using assms(1)
    by (simp add: accuracy_def expand_target_def correct_k_eq right_k_def Let_def)
qed

lemma call_pure: "f (world s) = (r, world s) \<Longrightarrow> call f s = (r, s)"
  by (simp add: call_def)

lemma validate_loop_sums:
  assumes pure: "\<And>input w. net_call fw net input w = (Inr (f input), w)"
  shows "list_all (well_formed_batch f) batches \<Longrightarrow> 0 \<le> count m1 \<Longrightarrow> 0 \<le> count m5 \<Longrightarrow>
    \<exists>m1' m5'. validate_loop fw net batches (m1, m5) s = (Inr (m1', m5'), s) \<and>
      count m1' = count m1 + int (length (scored_samples f batches)) \<and>
      sum_m m1' = sum_m m1 + 100 * of_nat (right_k 1 (scored_samples f batches)) \<and>
      count m5' = count m5 + int (length (scored_samples f batches)) \<and>
      sum_m m5' = sum_m m5 + 100 * of_nat (right_k 5 (scored_samples f batches)) \<and>
      avg m1' = (if batches = [] then avg m1 else sum_m m1' / of_int (count m1')) \<and>
      avg m5' = (if batches = [] then avg m5 else sum_m m5' / of_int (count m5'))"
proof (induction batches arbitrary: m1 m5)
  case Nil
  then show ?case by (simp add: scored_samples_def right_k_def ret_def)
next
  case (Cons b batches)
  obtain input target where b: "b = (input, target)" by (cases b)
  from Cons.prems(1) have "well_formed_batch f b"
    and rest: "list_all (well_formed_batch f) batches"
    by simp_all
  with b have wf: "input \<noteq> []" "length target = length input"
    "length (f input) = length input" "list_all (\<lambda>row. 5 \<le> length row) (f input)"
    by (simp_all add: well_formed_batch_def)
  let ?n = "length input"
  let ?S = "zip (f input) target"
  let ?p1 = "of_nat (right_k 1 ?S) * (100 / of_nat (length target)) :: rat"
  let ?p5 = "of_nat (right_k 5 ?S) * (100 / of_nat (length target)) :: rat"
  from wf have n: "0 < ?n" by simp
  have acc: "accuracy (f input) target [1, 5] = Inr [?p1, ?p5]"
    using wf by (intro accuracy_1_5) auto
  let ?m1 = "m1\<lparr>val := ?p1, sum_m := sum_m m1 + ?p1 * of_int (int ?n),
                count := count m1 + int ?n,
                avg := (sum_m m1 + ?p1 * of_int (int ?n)) / of_int (count m1 + int ?n)\<rparr>"
  let ?m5 = "m5\<lparr>val := ?p5, sum_m := sum_m m5 + ?p5 * of_int (int ?n),
                count := count m5 + int ?n,
                avg := (sum_m m5 + ?p5 * of_int (int ?n)) / of_int (count m5 + int ?n)\<rparr>"
  from n have npos: "0 < int ?n" by simp
  from Cons.prems(2) npos have "count m1 + int ?n \<noteq> 0" by linarith
  then have u1: "update m1 ?p1 (int ?n) = Inr ?m1"
    by (rule update_ok)
  from Cons.prems(3) npos have "count m5 + int ?n \<noteq> 0" by linarith
  then have u5: "update m5 ?p5 (int ?n) = Inr ?m5"
    by (rule update_ok)
  have forward: "call (net_call fw net input) s = (Inr (f input), s)"
    by (simp add: call_def pure)
  have nth: "[x, y] ! 0 = x" "[x, y] ! 1 = y" for x y :: rat
    by simp_all
  have step: "validate_loop fw net (b # batches) (m1, m5) s =
              validate_loop fw net batches (?m1, ?m5) s"
    unfolding b validate_loop.simps
    by (simp only: bind_Inr [where m = "call (net_call fw net input)", OF forward] acc
        bind_lift_Inr nth u1 u5)
  from Cons.prems(2,3) have c: "0 \<le> count ?m1" "0 \<le> count ?m5" by simp_all
  from Cons.IH [OF rest c] obtain m1' m5' where
    run: "validate_loop fw net batches (?m1, ?m5) s = (Inr (m1', m5'), s)"
    and c1: "count m1' = count ?m1 + int (length (scored_samples f batches))"
    and s1: "sum_m m1' = sum_m ?m1 + 100 * of_nat (right_k 1 (scored_samples f batches))"
    and c5: "count m5' = count ?m5 + int (length (scored_samples f batches))"
    and s5: "sum_m m5' = sum_m ?m5 + 100 * of_nat (right_k 5 (scored_samples f batches))"
    and a1: "avg m1' = (if batches = [] then avg ?m1 else sum_m m1' / of_int (count m1'))"
    and a5: "avg m5' = (if batches = [] then avg ?m5 else sum_m m5' / of_int (count m5'))"
    by blast
  have samples: "scored_samples f (b # batches) = ?S @ scored_samples f batches"
    by (simp add: scored_samples_def b)
  have len: "length ?S = ?n" using wf by simp
  have p1: "?p1 * of_int (int ?n) = 100 * of_nat (right_k 1 ?S)"
    using n wf(2) by simp
  have p5: "?p5 * of_int (int ?n) = 100 * of_nat (right_k 5 ?S)"
    using n wf(2) by simp
  have "count m1' = count m1 + int (length (scored_samples f (b # batches)))"
    using c1 len by (simp add: samples)
  moreover have "sum_m m1' = sum_m m1 + 100 * of_nat (right_k 1 (scored_samples f (b # batches)))"
    using s1 p1 by (simp add: samples right_k_append algebra_simps)
  moreover have "count m5' = count m5 + int (length (scored_samples f (b # batches)))"
    using c5 len by (simp add: samples)
  moreover have "sum_m m5' = sum_m m5 + 100 * of_nat (right_k 5 (scored_samples f (b # batches)))"
    using s5 p5 by (simp add: samples right_k_append algebra_simps)
  moreover have "avg m1' = sum_m m1' / of_int (count m1')"
  proof (cases "batches = []")
    case True
    with run have "m1' = ?m1" by (simp add: ret_def)
    then show ?thesis by simp
  next
    case False
    with a1 show ?thesis by simp
  qed
  moreover have "avg m5' = sum_m m5' / of_int (count m5')"
  proof (cases "batches = []")
    case True
    with run have "m5' = ?m5" by (simp add: ret_def)
    then show ?thesis by simp
  next
    case False
    with a5 show ?thesis by simp
  qed
  ultimately show ?case
    using step run by simp
qed

lemma right_wrong:
  "right_k k samples + length (filter (\<lambda>(row, t). t \<notin> set (topk_row k row)) samples)
     = length samples"
  unfolding right_k_def
  using sum_length_filter_compl [of "\<lambda>(row, t). t \<in> set (topk_row k row)" samples]
  by (simp add: split_def)

lemma percentage_of_error:
  assumes "samples \<noteq> []"
  shows "100 * of_nat (right_k k samples) / of_int (int (length samples))
           = 100 * (1 - spec_topk_error k samples)"
proof -
  let ?n = "of_nat (length samples) :: rat"
  let ?w = "of_nat (length (filter (\<lambda>(row, t). t \<notin> set (topk_row k row)) samples)) :: rat"
  from assms have n: "?n \<noteq> 0" by simp
  from right_wrong [of k samples] have "of_nat (right_k k samples) + ?w = ?n"
    by (metis of_nat_add)
  then have "of_nat (right_k k samples) = ?n - ?w" by simp
  then have "of_nat (right_k k samples) / ?n = 1 - ?w / ?n"
    using n by (simp add: diff_divide_distrib)
  then show ?thesis
    by (simp add: spec_topk_error_def)
qed

lemma scored_samples_nonempty:
  assumes "list_all (well_formed_batch f) val_data" and "val_data \<noteq> []"
  shows "scored_samples f val_data \<noteq> []"
proof -
  from assms(2) obtain b rest where v: "val_data = b # rest" by (cases val_data) auto
  with assms(1) have "well_formed_batch f b" by simp
  then have "zip (f (fst b)) (snd b) \<noteq> []"
    by (cases "f (fst b)"; cases "snd b") (auto simp: well_formed_batch_def)
  with v show ?thesis by (simp add: scored_samples_def)
qed

text \<open>
  C1 does not hold of the code; this is what \<open>validate\<close> computes. Let the network be a function \<open>f\<close> from a batch
  of inputs to their score rows, and let every batch of a non-empty validation set be
  well formed (not empty, one label and one row of at least five scores per sample).
  Then \<open>validate\<close> returns, for \<open>k = 1\<close> and \<open>k = 5\<close>, one minus the percentage of the
  samples whose label is among the \<open>k\<close> highest-scored classes, that is
  \<open>1 - 100 * (1 - e)\<close> where \<open>e\<close> is the top-\<open>k\<close> error of the glossary: the factor
  \<open>100.0\<close> of \<open>accuracy\<close> is not undone. The result is the error \<open>e\<close> itself only
  when \<open>e = 1\<close>.
\<close>

theorem validate_returns_one_minus_percentage:
  assumes "\<And>input w. net_call fw net input w = (Inr (f input), w)"
    and "\<And>w. \<exists>w'. net_eval fw net w = (Inr (), w')"
    and "list_all (well_formed_batch f) val_data" and "val_data \<noteq> []"
  shows "\<exists>m1 m5. fst (validate fw acc_top1 acc_top5 net val_data use_cuda s) =
           Inr ((1 - 100 * (1 - spec_topk_error 1 (scored_samples f val_data)),
                 1 - 100 * (1 - spec_topk_error 5 (scored_samples f val_data))), m1, m5)"
proof -
  let ?S = "scored_samples f val_data"
  let ?s0 = "s\<lparr>journal := journal s @ [NetEval]\<rparr>"
  from assms(2) obtain w' where ev: "net_eval fw net (world s) = (Inr (), w')" by blast
  let ?s1 = "?s0\<lparr>world := w'\<rparr>"
  have zero: "0 \<le> count (reset acc_top1)" "0 \<le> count (reset acc_top5)"
    by (simp_all add: reset_def)
  from validate_loop_sums [of fw net f val_data "reset acc_top1" "reset acc_top5" ?s1,
      OF assms(1) assms(3) zero]
  obtain m1 m5 where
    run: "validate_loop fw net val_data (reset acc_top1, reset acc_top5) ?s1 = (Inr (m1, m5), ?s1)"
    and c1: "count m1 = int (length ?S)" and s1: "sum_m m1 = 100 * of_nat (right_k 1 ?S)"
    and c5: "count m5 = int (length ?S)" and s5: "sum_m m5 = 100 * of_nat (right_k 5 ?S)"
    and a1: "avg m1 = sum_m m1 / of_int (count m1)"
    and a5: "avg m5 = sum_m m5 / of_int (count m5)"
    using assms(4) by (auto simp: reset_def)
  have nonempty: "?S \<noteq> []"
    using assms(3,4) by (rule scored_samples_nonempty)
  have "avg m1 = 100 * (1 - spec_topk_error 1 ?S)"
    using percentage_of_error [OF nonempty, of 1] a1 c1 s1 by simp
  moreover have "avg m5 = 100 * (1 - spec_topk_error 5 ?S)"
    using percentage_of_error [OF nonempty, of 5] a5 c5 s5 by simp
  moreover have "validate fw acc_top1 acc_top5 net val_data use_cuda s =
      (Inr ((1 - avg m1, 1 - avg m5), m1, m5), ?s1)"
  proof -
    have e0: "emit NetEval s = (Inr (), ?s0)"
      by (simp add: emit_def)
    have e1: "call (net_eval fw net) ?s0 = (Inr (), ?s1)"
      using ev by (simp add: call_def)
    have "validate fw acc_top1 acc_top5 net val_data use_cuda s =
            (\<lambda>(acc_top1, acc_top5).
               let top1 = avg acc_top1; top5 = avg acc_top5
               in ret ((1 - top1, 1 - top5), acc_top1, acc_top5)) (m1, m5) ?s1"
      unfolding validate_def
      by (simp only: bind_Inr [where m = "emit NetEval", OF e0]
          bind_Inr [where m = "call (net_eval fw net)", OF e1]
          bind_Inr [where m = "validate_loop fw net val_data (reset acc_top1, reset acc_top5)",
                     OF run])
    then show ?thesis by (simp add: ret_def)
  qed
  ultimately show ?thesis by simp
qed

theorem validate_returns_one_minus_percentage_witness:
  "list_all (well_formed_batch (map example_scores)) example_batch \<and> example_batch \<noteq> [] \<and>
   scored_samples (map example_scores) example_batch =
     [(example_scores 0, 1), (example_scores 1, 4)] \<and>
   spec_topk_error 1 [(example_scores 0, 1), (example_scores 1, 4)] = 1 / 2 \<and>
   spec_topk_error 5 [(example_scores 0, 1), (example_scores 1, 4)] = 0 \<and>
   fst (validate example_framework new_AverageMeter new_AverageMeter 0 example_batch False
          empty_machine) =
     Inr ((- 49, - 99), \<lparr>val = 50, avg = 50, sum_m = 100, count = 2\<rparr>,
          \<lparr>val = 100, avg = 100, sum_m = 200, count = 2\<rparr>)"
proof -
  have wf: "list_all (well_formed_batch (map example_scores)) example_batch"
    "example_batch \<noteq> []"
    by (simp_all add: well_formed_batch_def example_batch_def example_scores_def)
  have net: "net_call example_framework 0 input w = (Inr (map example_scores input), w)"
    "\<exists>w'. net_eval example_framework 0 w = (Inr (), w')" for input w
    by (simp_all add: example_framework_def)
  have samples: "scored_samples (map example_scores) example_batch =
     [(example_scores 0, 1), (example_scores 1, 4)]"
    by (simp add: scored_samples_def example_batch_def)
  have e1: "spec_topk_error 1 [(example_scores 0, 1), (example_scores 1, 4)] = 1 / 2"
    by (simp add: spec_topk_error_def example_scores_def topk_row_def)
  have e5: "spec_topk_error 5 [(example_scores 0, 1), (example_scores 1, 4)] = 0"
    by (simp add: spec_topk_error_def example_scores_def topk_row_def)
  have run: "fst (validate example_framework new_AverageMeter new_AverageMeter 0 example_batch
          False empty_machine) =
     Inr ((- 49, - 99), \<lparr>val = 50, avg = 50, sum_m = 100, count = 2\<rparr>,
          \<lparr>val = 100, avg = 100, sum_m = 200, count = 2\<rparr>)"
    by (simp add: validate_def run_defs example_framework_def example_scores_def
        example_batch_def empty_machine_def new_AverageMeter_def reset_def update_def
        accuracy_def topk_row_def expand_target_def correct_k_def)
  from validate_returns_one_minus_percentage [of example_framework 0 "map example_scores"
      example_batch new_AverageMeter new_AverageMeter False empty_machine, OF net wf]
    wf samples e1 e5 run
  show ?thesis by simp
qed

subsection \<open>\<open>train_epoch\<close>\<close>

lemma train_loop_fails:
  assumes "log_interval \<noteq> 0"
    and "\<exists>j. i < j \<and> j \<le> i + int (length batches) \<and> j mod log_interval = 0"
  shows "fails (train_loop fw epoch net L optimizer log_interval batches i st)"
  using assms(2)
proof (induction batches arbitrary: i st)
  case Nil
  then obtain j where "i < j" and "j \<le> i + 0" by auto
  then have False by linarith
  then show ?case ..
next
  case (Cons b batches)
  obtain input target where b: "b = (input, target)" by (cases b)
  obtain acc loss where st: "st = (acc, loss)" by (cases st)
  show ?case
  proof (cases "(i + 1) mod log_interval = 0")
    case True
    with assms(1) have logging:
      "fails (bind (if log_interval \<noteq> 0 \<and> (i + 1) mod log_interval = 0
                    then raise (AttributeError ''get'')
                    else ret ()) g)" for g
      by (intro fails_bind_left) (simp add: fails_raise)
    show ?thesis
      unfolding b st train_loop.simps
      by (rule logging | rule fails_bind)+
  next
    case False
    from Cons.prems obtain j
      where "i < j \<and> j \<le> i + int (length (b # batches)) \<and> j mod log_interval = 0" ..
    then have j: "i < j" "j \<le> i + int (length (b # batches))" "j mod log_interval = 0"
      by simp_all
    from False j(3) have "j \<noteq> i + 1" by (intro notI) simp
    with j(1) have lower: "i + 1 < j" by linarith
    from j(2) have upper: "j \<le> (i + 1) + int (length batches)" by simp
    from lower upper j(3)
    have "\<exists>j. i + 1 < j \<and> j \<le> (i + 1) + int (length batches) \<and> j mod log_interval = 0"
      by (intro exI [of _ j] conjI)
    then have rest: "fails (train_loop fw epoch net L optimizer log_interval batches (i + 1) st')"
      for st'
      by (rule Cons.IH)
    show ?thesis
      unfolding b st train_loop.simps
      by (rule rest | rule fails_bind)+
  qed
qed

text \<open>
  C8 does not hold of the code. Whenever the logging branch of the loop is reached, that
  is when \<open>log_interval\<close> is positive and the epoch has at least \<open>log_interval\<close> batches,
  \<open>train_epoch\<close> does not return: the branch calls \<open>acc_top1.get()\<close>, which \<open>AverageMeter\<close>
  does not have. With \<open>log_interval = 1\<close> this is every epoch that has a batch.
\<close>

theorem train_epoch_logging_raises:
  assumes "0 < log_interval" and "log_interval \<le> int (length train_data)"
  shows "\<exists>e s'. train_epoch fw epoch acc_top1 net train_data use_cuda L optimizer lr_scheduler
                   batch_size log_interval s = (Inl e, s')"
proof -
  from assms(1) have nz: "log_interval \<noteq> 0" by simp
  from assms have "0 < log_interval \<and> log_interval \<le> 0 + int (length train_data)
      \<and> log_interval mod log_interval = 0"
    by simp
  then have "\<exists>j. 0 < j \<and> j \<le> 0 + int (length train_data) \<and> j mod log_interval = 0" ..
  with nz have "fails (train_loop fw epoch net L optimizer log_interval train_data 0
                     (reset acc_top1, 0))"
    by (rule train_loop_fails)
  then have "fails (train_epoch fw epoch acc_top1 net train_data use_cuda L optimizer lr_scheduler
                   batch_size log_interval)"
    unfolding train_epoch_def
    by (intro fails_bind fails_bind_left)
  then show ?thesis by (simp add: fails_def)
qed

theorem train_epoch_logging_raises_witness:
  "(0::int) < 1 \<and> 1 \<le> int (length example_batch) \<and>
   (\<exists>e s'. train_epoch example_framework 0 new_AverageMeter 0 example_batch False 2 1 VNone 2 1
              empty_machine = (Inl e, s')) \<and>
   train_epoch example_framework 0 new_AverageMeter 0 example_batch False 2 1 VNone 2 1
     empty_machine =
     (Inl (AttributeError ''get''), \<lparr>world = [], journal = [NetTrain, InfoModelParameters 17]\<rparr>)"
proof -
  have len: "(0::int) < 1" "1 \<le> int (length example_batch)"
    by (simp_all add: example_batch_def)
  have run: "train_epoch example_framework 0 new_AverageMeter 0 example_batch False 2 1 VNone 2 1
     empty_machine =
     (Inl (AttributeError ''get''), \<lparr>world = [], journal = [NetTrain, InfoModelParameters 17]\<rparr>)"
    by (simp add: train_epoch_def calc_net_weight_count_def run_defs example_framework_def
        example_scores_def example_batch_def empty_machine_def new_AverageMeter_def
        reset_def update_def accuracy_def topk_row_def expand_target_def correct_k_def)
  from train_epoch_logging_raises [OF len, of example_framework 0 new_AverageMeter 0 False 2 1
      VNone 2 empty_machine] len run
  show ?thesis by simp
qed

subsection \<open>\<open>train_net\<close>\<close>

text \<open>
  \<open>train_epoch\<close> never returns. With no batch it raises \<open>UnboundLocalError\<close>; with a batch
  the average it formats with \<open>{:.4f}\<close> is a tensor of shape \<open>[1]\<close>, and the format
  raises \<open>TypeError\<close>, unless the loop has raised before.
\<close>

lemma train_epoch_raises:
  "train_epoch fw epoch acc_top1 net train_data use_cuda L optimizer lr_scheduler
       batch_size log_interval =
     bind (emit NetTrain) (\<lambda>_.
     bind (call (net_train fw net)) (\<lambda>_.
     bind (train_loop fw epoch net L optimizer log_interval train_data 0
             (reset acc_top1, 0)) (\<lambda>_.
     raise (if train_data = [] then UnboundLocalError ''i''
            else TypeError ''unsupported format string passed to Tensor.__format__''))))"
  by (simp add: train_epoch_def Let_def bind_lift_Inl split_def)

lemma train_epoch_fails:
  "fails (train_epoch fw epoch acc_top1 net train_data use_cuda L optimizer lr_scheduler
            batch_size log_interval)"
  unfolding train_epoch_raises
  by (intro fails_bind fails_raise)

lemma reaches_weight_count: "reaches (calc_net_weight_count fw net) []"
  unfolding calc_net_weight_count_def
  by (intro reaches_bind_nil reaches_call reaches_ret)

lemma reaches_train_loop:
  "reaches (train_loop fw epoch net L optimizer log_interval batches i st) []"
proof (induction batches arbitrary: i st)
  case Nil
  show ?case by (cases st) (simp add: reaches_ret)
next
  case (Cons b batches)
  obtain input target where b: "b = (input, target)" by (cases b)
  obtain acc loss where st: "st = (acc, loss)" by (cases st)
  have ev: "reaches (emit (InfoModelParameters n)) []" for n
    using reaches_emit [of "InfoModelParameters n"] by simp
  show ?case
    unfolding b st train_loop.simps
    by (intro reaches_bind_nil reaches_call reaches_lift reaches_if reaches_ret reaches_raise
          reaches_weight_count ev Cons.IH)
qed

lemma reaches_validate_loop: "reaches (validate_loop fw net batches st) []"
proof (induction batches arbitrary: st)
  case Nil
  show ?case by (cases st) (simp add: reaches_ret)
next
  case (Cons b batches)
  obtain input target where b: "b = (input, target)" by (cases b)
  obtain a1 a5 where st: "st = (a1, a5)" by (cases st)
  show ?case
    unfolding b st validate_loop.simps
    by (intro reaches_bind_nil reaches_call reaches_lift Cons.IH)
qed

lemma reaches_validate:
  "reaches (validate fw acc_top1 acc_top5 net val_data use_cuda) [ValidationStarted]"
proof -
  have "reaches (validate fw acc_top1 acc_top5 net val_data use_cuda) (phase_of NetEval @ [])"
    unfolding validate_def Let_def
    by (intro reaches_bind reaches_emit reaches_bind_nil reaches_call reaches_validate_loop
          reaches_prod reaches_ret)
  then show ?thesis by simp
qed

lemma reaches_train_epoch:
  "reaches (train_epoch fw epoch acc_top1 net train_data use_cuda L optimizer lr_scheduler
              batch_size log_interval) [TrainingStarted]"
proof -
  have "reaches (train_epoch fw epoch acc_top1 net train_data use_cuda L optimizer lr_scheduler
                   batch_size log_interval) (phase_of NetTrain @ [])"
    unfolding train_epoch_raises
    by (intro reaches_bind reaches_emit reaches_bind_nil reaches_call reaches_train_loop
          reaches_raise)
  then show ?thesis by simp
qed

text \<open>So the loop over the epochs ends in its first iteration, inside \<open>train_epoch\<close>.\<close>

lemma epoch_loop_fails:
  "fails (epoch_loop fw batch_size train_data val_data net optimizer lr_scheduler lp_saver
            log_interval use_cuda L (epoch # epochs) st)"
proof -
  obtain a1 a5 where st: "st = (a1, a5)" by (cases st)
  show ?thesis
    unfolding st epoch_loop.simps
    by (rule fails_bind_left) (rule train_epoch_fails)
qed

lemma reaches_epoch_loop:
  "reaches (epoch_loop fw batch_size train_data val_data net optimizer lr_scheduler lp_saver
              log_interval use_cuda L (epoch # epochs) st) [TrainingStarted]"
proof -
  obtain a1 a5 where st: "st = (a1, a5)" by (cases st)
  show ?thesis
    unfolding st epoch_loop.simps
    by (rule reaches_fails) (rule train_epoch_fails, rule reaches_train_epoch)
qed

lemma reaches_first_validation:
  "reaches (if start > 1
            then bind (emit (InfoStartTraining start)) (\<lambda>_.
                 bind (validate fw acc_top1 acc_top5 net val_data use_cuda)
                   (\<lambda>((err_top1_val, err_top5_val), acc_top1, acc_top5).
                 bind (emit (InfoEpochValidation (start - 1) err_top1_val err_top5_val))
                   (\<lambda>_.
                 ret (acc_top1, acc_top5))))
            else ret (acc_top1, acc_top5))
     (if start > 1 then [ValidationStarted, ValidationDone (start - 1)] else [])"
proof (cases "start > 1")
  case False
  then show ?thesis by (simp add: reaches_ret)
next
  case True
  have start: "reaches (emit (InfoStartTraining start)) []"
    using reaches_emit [of "InfoStartTraining start"] by simp
  have logged: "reaches (bind (emit (InfoEpochValidation (start - 1) e1 e5)) (\<lambda>_. ret r))
                  [ValidationDone (start - 1)]" for e1 e5 and r :: "AverageMeter \<times> AverageMeter"
    using reaches_bind [OF reaches_emit [of "InfoEpochValidation (start - 1) e1 e5"],
                        of "\<lambda>_. ret r" "[]"]
    by (simp add: reaches_ret)
  have "reaches (bind (emit (InfoStartTraining start)) (\<lambda>_.
                 bind (validate fw acc_top1 acc_top5 net val_data use_cuda)
                   (\<lambda>((err_top1_val, err_top5_val), acc_top1, acc_top5).
                 bind (emit (InfoEpochValidation (start - 1) err_top1_val err_top5_val))
                   (\<lambda>_.
                 ret (acc_top1, acc_top5)))))
          ([ValidationStarted] @ [ValidationDone (start - 1)])"
    by (intro reaches_bind_nil start reaches_bind reaches_validate reaches_prod reaches_prod2
          logged)
  with True show ?thesis by simp
qed

lemma train_net_VInt:
  "1 \<le> start \<Longrightarrow> start \<le> num_epochs \<Longrightarrow>
   train_net fw batch_size num_epochs (VInt start) train_data val_data net optimizer
       lr_scheduler lp_saver log_interval use_cuda =
     bind (call (cross_entropy_loss fw)) (\<lambda>L.
       bind (if start > 1
             then bind (emit (InfoStartTraining start)) (\<lambda>_.
                  bind (validate fw new_AverageMeter new_AverageMeter net val_data use_cuda)
                    (\<lambda>((err_top1_val, err_top5_val), acc_top1, acc_top5).
                  bind (emit (InfoEpochValidation (start - 1) err_top1_val err_top5_val))
                    (\<lambda>_.
                  ret (acc_top1, acc_top5))))
             else ret (new_AverageMeter, new_AverageMeter)) (\<lambda>(acc_top1, acc_top5).
       bind (epoch_loop fw batch_size train_data val_data net optimizer lr_scheduler
               lp_saver log_interval use_cuda L ((start - 1) # [start .. num_epochs - 1])
               (acc_top1, acc_top5)) (\<lambda>_.
       bind (emit InfoTotalTime) (\<lambda>_.
       case lp_saver of
         None \<Rightarrow> ret ()
       | Some saver \<Rightarrow>
           bind (call (best_eval_metric fw saver)) (\<lambda>(value, best_epoch).
           emit (InfoBest value best_epoch))))))"
proof -
  assume "1 \<le> start" and "start \<le> num_epochs"
  then have "[start - 1 .. num_epochs - 1] = (start - 1) # [start .. num_epochs - 1]"
    by (simp add: upto_rec1)
  with \<open>1 \<le> start\<close> show ?thesis
    by (simp add: train_net_def Let_def)
qed

lemma train_net_fails:
  assumes "1 \<le> start" and "start \<le> num_epochs"
  shows "fails (train_net fw batch_size num_epochs (VInt start) train_data val_data net optimizer
                  lr_scheduler lp_saver log_interval use_cuda)"
  unfolding train_net_VInt [OF assms]
  by (rule fails_bind, rule fails_bind, rule fails_prod, rule fails_bind_left,
      rule epoch_loop_fails)

lemma reaches_train_net:
  assumes "1 \<le> start" and "start \<le> num_epochs"
  shows "reaches (train_net fw batch_size num_epochs (VInt start) train_data val_data net
                    optimizer lr_scheduler lp_saver log_interval use_cuda)
           ((if start > 1 then [ValidationStarted, ValidationDone (start - 1)] else [])
              @ [TrainingStarted])"
  unfolding train_net_VInt [OF assms]
  by (rule reaches_bind_nil, rule reaches_call, rule reaches_bind,
      rule reaches_first_validation, rule reaches_prod, rule reaches_fails,
      rule epoch_loop_fails, rule reaches_epoch_loop)

lemma trained_epochs_append: "trained_epochs (ps @ qs) = trained_epochs ps @ trained_epochs qs"
  by (induction ps rule: trained_epochs.induct) simp_all

lemma example_train_net_run:
  "train_net example_framework 2 3 (VInt 2) example_batch example_batch 0 1 VNone (Some 4) 50
       False empty_machine =
     (Inl (TypeError ''unsupported format string passed to Tensor.__format__''),
      \<lparr>world = [],
        journal = [InfoStartTraining 2, NetEval, InfoEpochValidation 1 (- 49) (- 99),
                   NetTrain]\<rparr>)"
proof -
  have bounds: "(1::int) \<le> 2" "(2::int) \<le> 3" by simp_all
  show ?thesis
    unfolding train_net_VInt [OF bounds] train_epoch_raises epoch_loop.simps
    by (simp add: validate_def run_defs example_framework_def example_scores_def
        example_batch_def empty_machine_def new_AverageMeter_def reset_def update_def
        accuracy_def topk_row_def expand_target_def correct_k_def)
qed

text \<open>
  C7 does not hold of the code. Let \<open>1 \<le> start_epoch1 \<le> num_epochs\<close>. Whatever the
  framework does, \<open>train_net\<close> ends with an exception, and the phases it has added to the
  journal are an initial part of: the validation pass before the first epoch (when
  \<open>start_epoch1 > 1\<close>), then the start of one training epoch. No training epoch is
  completed, no validation pass follows one and the saver's callback is not invoked:
  the first call of \<open>train_epoch\<close> does not return.
\<close>

theorem train_net_stops_in_first_epoch:
  assumes "1 \<le> start_epoch1" and "start_epoch1 \<le> num_epochs"
  shows "\<exists>e s' evs rest.
           train_net fw batch_size num_epochs (VInt start_epoch1) train_data val_data net
             optimizer lr_scheduler lp_saver log_interval use_cuda s = (Inl e, s') \<and>
           journal s' = journal s @ evs \<and>
           (if start_epoch1 > 1 then [ValidationStarted, ValidationDone (start_epoch1 - 1)]
            else []) @ [TrainingStarted] = phases evs @ rest \<and>
           trained_epochs (phases evs) = []"
proof -
  let ?run = "train_net fw batch_size num_epochs (VInt start_epoch1) train_data val_data net
                optimizer lr_scheduler lp_saver log_interval use_cuda"
  let ?first = "(if start_epoch1 > 1 then [ValidationStarted, ValidationDone (start_epoch1 - 1)]
                 else []) @ [TrainingStarted]"
  from assms have "fails ?run" by (rule train_net_fails)
  then obtain e s' where run: "?run s = (Inl e, s')"
    unfolding fails_def by blast
  from assms have "reaches ?run ?first" by (rule reaches_train_net)
  with run obtain evs rest
    where evs: "journal s' = journal s @ evs" and first: "?first = phases evs @ rest"
    unfolding reaches_def by blast
  have "trained_epochs ?first = []" by simp
  with first have "trained_epochs (phases evs @ rest) = []" by simp
  then have "trained_epochs (phases evs) = []"
    by (simp add: trained_epochs_append)
  with run evs first show ?thesis by blast
qed

theorem train_net_stops_in_first_epoch_witness:
  "(1::int) \<le> 2 \<and> (2::int) \<le> 3 \<and>
   (\<exists>e s' evs rest.
      train_net example_framework 2 3 (VInt 2) example_batch example_batch 0 1 VNone (Some 4) 50
        False empty_machine = (Inl e, s') \<and>
      journal s' = journal empty_machine @ evs \<and>
      [ValidationStarted, ValidationDone 1, TrainingStarted] = phases evs @ rest \<and>
      trained_epochs (phases evs) = []) \<and>
   train_net example_framework 2 3 (VInt 2) example_batch example_batch 0 1 VNone (Some 4) 50
       False empty_machine =
     (Inl (TypeError ''unsupported format string passed to Tensor.__format__''),
      \<lparr>world = [],
        journal = [InfoStartTraining 2, NetEval, InfoEpochValidation 1 (- 49) (- 99),
                   NetTrain]\<rparr>)"
proof -
  have bounds: "(1::int) \<le> 2" "(2::int) \<le> 3" by simp_all
  from train_net_stops_in_first_epoch [OF bounds, of example_framework 2 example_batch
      example_batch 0 1 VNone "Some 4" 50 False empty_machine]
    bounds example_train_net_run
  show ?thesis by simp
qed

subsection \<open>\<open>_get_model\<close>\<close>

text \<open>
  C6 does not hold of the code. For a name that is not a key of the upstream dictionary,
  whether the local registry defines it or not, \<open>_get_model\<close> raises \<open>KeyError\<close> at the
  subscript and leaves the state as it was: the \<open>except ValueError\<close> clause does not
  catch it, no registry entry is called and no \<open>ValueError\<close> is raised.
\<close>

theorem get_model_raises_KeyError:
  assumes "upstream_models fw name = None"
  shows "get_model fw name kwargs s = (Inl (KeyError name), s)"
  using assms by (simp add: get_model_def raise_def)

theorem get_model_raises_KeyError_witness:
  "upstream_models example_framework ''mobilenet1_0'' = None \<and>
   ''mobilenet1_0'' \<in> set slk_models \<and>
   get_model example_framework ''mobilenet1_0''
       [(''pretrained'', VBool False), (''classes'', VInt 1000)] empty_machine =
     (Inl (KeyError ''mobilenet1_0''), empty_machine)"
proof -
  have none: "upstream_models example_framework ''mobilenet1_0'' = None"
    by (simp add: example_framework_def)
  have "''mobilenet1_0'' \<in> set slk_models"
    by (simp add: slk_models_def)
  with none get_model_raises_KeyError [OF none] show ?thesis by simp
qed

subsection \<open>\<open>prepare_trainer\<close>\<close>

lemma prepare_trainer_fresh:
  "prepare_trainer fw net optimizer_name wd momentum lr_mode lr lr_decay_period
       lr_decay_epoch lr_decay warmup_epochs batch_size num_epochs num_training_samples [] =
     bind (if optimizer_name = ''sgd'' then call (sgd fw net lr momentum wd False)
           else if optimizer_name = ''nag'' then call (sgd fw net lr momentum wd True)
           else raise PlainException) (\<lambda>optimizer.
     bind (call (set_cudnn_benchmark fw)) (\<lambda>_.
     raise (UnboundLocalError ''start_epoch'')))"
  by (simp add: prepare_trainer_def bind_ret)

lemma prepare_trainer_fresh_fails:
  "fails (prepare_trainer fw net optimizer_name wd momentum lr_mode lr lr_decay_period
            lr_decay_epoch lr_decay warmup_epochs batch_size num_epochs num_training_samples [])"
  unfolding prepare_trainer_fresh
  by (intro fails_bind fails_raise)

text \<open>
  C3 does not hold of the code. With an empty resume path \<open>prepare_trainer\<close> never
  returns, whatever the optimizer name and the framework: the names \<open>start_epoch\<close> and
  \<open>best_prec1\<close> are bound in the resume branch only, and the \<open>return\<close> statement reads
  them. For the optimizer \<open>nag\<close> on the example framework the exception is
  \<open>UnboundLocalError\<close> for \<open>start_epoch\<close>.
\<close>

theorem prepare_trainer_fresh_raises:
  "(\<exists>e s'. prepare_trainer fw net optimizer_name wd momentum lr_mode lr lr_decay_period
              lr_decay_epoch lr_decay warmup_epochs batch_size num_epochs num_training_samples []
              s = (Inl e, s')) \<and>
   prepare_trainer example_framework 0 ''nag'' (1 / 10000) (9 / 10) ''step'' (1 / 10) 0
       ''40,60'' (1 / 10) 0 32 3 1281167 [] empty_machine =
     (Inl (UnboundLocalError ''start_epoch''), empty_machine)"
proof -
  have "prepare_trainer example_framework 0 ''nag'' (1 / 10000) (9 / 10) ''step'' (1 / 10) 0
       ''40,60'' (1 / 10) 0 32 3 1281167 [] empty_machine =
     (Inl (UnboundLocalError ''start_epoch''), empty_machine)"
    by (simp add: prepare_trainer_def run_defs example_framework_def empty_machine_def)
  with prepare_trainer_fresh_fails [of fw net optimizer_name wd momentum lr_mode lr
      lr_decay_period lr_decay_epoch lr_decay warmup_epochs batch_size num_epochs
      num_training_samples]
  show ?thesis by (simp add: fails_def)
qed

subsection \<open>\<open>save_params\<close>\<close>

text \<open>
  C4 does not hold of the code. \<open>save_params\<close> is the only writer of checkpoint files in
  the driver, and all it does is call \<open>net.save_parameters(file_path)\<close>. For a network
  object without an attribute \<open>save_parameters\<close>, which is every module of \<open>torch\<close>, the
  call raises \<open>AttributeError\<close> and the state is as before: no file is written, and so no
  dictionary with the entries \<open>state_dict\<close>, \<open>optimizer\<close>, \<open>epoch\<close> and \<open>best_prec1\<close> that the
  resume path reads.
\<close>

theorem save_params_raises_AttributeError:
  assumes "save_parameters fw net = None"
  shows "save_params fw file_path net s = (Inl (AttributeError ''save_parameters''), s)"
  using assms by (simp add: save_params_def raise_def)

theorem save_params_raises_AttributeError_witness:
  "save_parameters example_framework 0 = None \<and>
   save_params example_framework ''imagenet_resnet18_last.params'' 0 empty_machine =
     (Inl (AttributeError ''save_parameters''), empty_machine)"
proof -
  have none: "save_parameters example_framework 0 = None"
    by (simp add: example_framework_def)
  with save_params_raises_AttributeError [OF none] show ?thesis by simp
qed

subsection \<open>\<open>parse_args\<close> and \<open>main\<close>\<close>

lemma map_fst_setattr:
  "name \<in> set (map fst ns) \<Longrightarrow> map fst (setattr ns name v) = map fst ns"
proof (induction ns)
  case Nil
  then show ?case by simp
next
  case (Cons p ns)
  obtain name' v' where p: "p = (name', v')" by (cases p)
  show ?case
  proof (cases "name' = name")
    case True
    with p show ?thesis by simp
  next
    case False
    with Cons.prems p have "name \<in> set (map fst ns)" by simp
    with Cons.IH False p show ?thesis by simp
  qed
qed

lemma set_setattr: "set (setattr ns name v) \<subseteq> insert (name, v) (set ns)"
proof (induction ns)
  case Nil
  show ?case by simp
next
  case (Cons p ns)
  obtain name' v' where p: "p = (name', v')" by (cases p)
  from Cons.IH show ?case
    unfolding p by (cases "name' = name") auto
qed

lemma distinct_dest: "distinct (map dest parser_arguments)"
  by (simp add: parser_arguments_def add_argument_def)

lemma dest_inj:
  "a \<in> set parser_arguments \<Longrightarrow> b \<in> set parser_arguments \<Longrightarrow> dest a = dest b \<Longrightarrow> a = b"
  using distinct_dest by (auto simp: distinct_map dest: inj_onD)

lemma parsedI:
  assumes "map fst ns = map dest parser_arguments"
    and "\<And>name v a. (name, v) \<in> set ns \<Longrightarrow> a \<in> set parser_arguments \<Longrightarrow> dest a = name
           \<Longrightarrow> conforms a v"
  shows "parsed ns"
  using assms unfolding parsed_def list_all_iff by blast

lemma parsed_keys: "parsed ns \<Longrightarrow> map fst ns = map dest parser_arguments"
  by (simp add: parsed_def)

lemma parsed_conforms:
  "parsed ns \<Longrightarrow> (name, v) \<in> set ns \<Longrightarrow> a \<in> set parser_arguments \<Longrightarrow> dest a = name
   \<Longrightarrow> conforms a v"
  unfolding parsed_def list_all_iff by blast

lemma parsed_setattr:
  assumes ns: "parsed ns" and a: "a \<in> set parser_arguments" and v: "conforms a v"
  shows "parsed (setattr ns (dest a) v)"
proof (rule parsedI)
  from a have "dest a \<in> set (map fst ns)"
    by (simp add: parsed_keys [OF ns])
  then show "map fst (setattr ns (dest a) v) = map dest parser_arguments"
    by (simp add: map_fst_setattr parsed_keys [OF ns])
next
  fix name w b
  assume in_new: "(name, w) \<in> set (setattr ns (dest a) v)"
    and b: "b \<in> set parser_arguments" and name: "dest b = name"
  from in_new set_setattr have "(name, w) = (dest a, v) \<or> (name, w) \<in> set ns" by blast
  then show "conforms b w"
  proof
    assume "(name, w) = (dest a, v)"
    with name have "dest b = dest a" and "w = v" by simp_all
    with a b v show ?thesis by (simp add: dest_inj [OF b a])
  next
    assume "(name, w) \<in> set ns"
    with ns have "(name, w) \<in> set ns \<and> parsed ns" by simp
    then show ?thesis using b name by (blast intro: parsed_conforms)
  qed
qed

lemma parsed_defaults: "parsed (map (\<lambda>a. (dest a, default_value a)) parser_arguments)"
proof (rule parsedI)
  show "map fst (map (\<lambda>a. (dest a, default_value a)) parser_arguments) = map dest parser_arguments"
    by (simp add: comp_def)
next
  fix name v b
  assume "(name, v) \<in> set (map (\<lambda>a. (dest a, default_value a)) parser_arguments)"
    and b: "b \<in> set parser_arguments" and name: "dest b = name"
  then obtain a where a: "a \<in> set parser_arguments" and "name = dest a" "v = default_value a"
    by auto
  with b name have "b = a" by (simp add: dest_inj)
  with \<open>v = default_value a\<close> show "conforms b v" by (simp add: conforms_def)
qed

lemma convert_stores: "convert lib ty v = Some pv \<Longrightarrow> stores (Store ty) pv"
  by (cases ty) (auto simp: convert_def)

lemma parse_tokens_step:
  assumes "match_flag lib arguments token = Some (k, explicit)" and "k < length arguments"
  shows "parse_tokens lib arguments (token # rest) (ns, seen) =
     (case action (arguments ! k) of
        StoreTrue \<Rightarrow>
          (case explicit of
             Some v \<Rightarrow> Inl (SystemExit ''ignored explicit argument'')
           | None \<Rightarrow>
               parse_tokens lib arguments rest
                 (setattr ns (dest (arguments ! k)) (VBool True), dest (arguments ! k) # seen))
      | Store ty \<Rightarrow>
          (case explicit of
             Some v \<Rightarrow>
               (case convert lib ty v of
                  None \<Rightarrow> Inl (SystemExit ''invalid value'')
                | Some pv \<Rightarrow>
                    parse_tokens lib arguments rest
                      (setattr ns (dest (arguments ! k)) pv, dest (arguments ! k) # seen))
           | None \<Rightarrow>
               (case rest of
                  [] \<Rightarrow> Inl (SystemExit ''expected one argument'')
                | v # rest' \<Rightarrow>
                    (case convert lib ty v of
                       None \<Rightarrow> Inl (SystemExit ''invalid value'')
                     | Some pv \<Rightarrow>
                         parse_tokens lib arguments rest'
                           (setattr ns (dest (arguments ! k)) pv,
                            dest (arguments ! k) # seen)))))"
  using assms by (simp add: Let_def)

lemma parse_tokens_parsed:
  "parsed ns \<Longrightarrow> parse_tokens lib parser_arguments tokens (ns, seen) = Inr (ns', seen')
   \<Longrightarrow> parsed ns'"
proof (induction tokens arbitrary: ns seen rule: length_induct)
  case (1 tokens)
  note run = "1.prems"(2)
  show ?case
  proof (cases tokens)
    case Nil
    with "1.prems" show ?thesis by simp
  next
    case (Cons token rest)
    have matched: "match_flag lib parser_arguments token \<noteq> None"
    proof
      assume "match_flag lib parser_arguments token = None"
      with run Cons show False by simp
    qed
    then obtain k explicit where
      m: "match_flag lib parser_arguments token = Some (k, explicit)"
      by (cases "match_flag lib parser_arguments token") auto
    have k: "k < length parser_arguments"
    proof (rule ccontr)
      assume "\<not> k < length parser_arguments"
      with run Cons m show False by simp
    qed
    let ?a = "parser_arguments ! k"
    note step = parse_tokens_step [OF m k, of rest ns seen]
    from k have a: "?a \<in> set parser_arguments" by simp
    have set: "parsed (setattr ns (dest ?a) v)" if "stores (action ?a) v" for v
    proof (rule parsed_setattr)
      show "parsed ns" by (rule "1.prems"(1))
      show "?a \<in> set parser_arguments" by (rule a)
      from that show "conforms ?a v" by (simp add: conforms_def)
    qed
    have shorter: "length rest < length tokens"
      using Cons by simp
    show ?thesis
    proof (cases "action ?a")
      case StoreTrue
      show ?thesis
      proof (cases explicit)
        case (Some v)
        with run Cons step StoreTrue show ?thesis by simp
      next
        case None
        with run Cons step StoreTrue have
          next_run: "parse_tokens lib parser_arguments rest
                (setattr ns (dest ?a) (VBool True), dest ?a # seen) = Inr (ns', seen')"
          by simp
        from StoreTrue have "parsed (setattr ns (dest ?a) (VBool True))"
          by (intro set) simp
        with "1.IH" shorter next_run show ?thesis by blast
      qed
    next
      case (Store ty)
      show ?thesis
      proof (cases explicit)
        case (Some v)
        show ?thesis
        proof (cases "convert lib ty v")
          case None
          with run Cons step Store Some show ?thesis by simp
        next
          case (Some pv)
          with run Cons step Store \<open>explicit = Some v\<close> have
            next_run: "parse_tokens lib parser_arguments rest
                      (setattr ns (dest ?a) pv, dest ?a # seen) = Inr (ns', seen')"
            by simp
          from Some Store have "parsed (setattr ns (dest ?a) pv)"
            by (intro set) (simp add: convert_stores)
          with "1.IH" shorter next_run show ?thesis by blast
        qed
      next
        case None
        show ?thesis
        proof (cases rest)
          case Nil
          with run Cons step Store None show ?thesis by simp
        next
          case (Cons v rest')
          show ?thesis
          proof (cases "convert lib ty v")
            case None
            with run \<open>tokens = token # rest\<close> step Store \<open>explicit = None\<close> Cons
            show ?thesis by simp
          next
            case (Some pv)
            with run \<open>tokens = token # rest\<close> step Store \<open>explicit = None\<close> Cons have
              next_run: "parse_tokens lib parser_arguments rest'
                      (setattr ns (dest ?a) pv, dest ?a # seen) = Inr (ns', seen')"
              by simp
            from Some Store have p: "parsed (setattr ns (dest ?a) pv)"
              by (intro set) (simp add: convert_stores)
            from Cons shorter have "length rest' < length tokens" by simp
            with "1.IH" p next_run show ?thesis by blast
          qed
        qed
      qed
    qed
  qed
qed

lemma parse_args_parsed:
  assumes "parse_args lib argv = Inr args"
  shows "parsed args"
proof (cases "parse_tokens lib parser_arguments (drop 1 argv)
                (map (\<lambda>a. (dest a, default_value a)) parser_arguments, [])")
  case (Inl e)
  with assms show ?thesis by (simp add: parse_args_def)
next
  case (Inr p)
  obtain args' seen where p: "p = (args', seen)" by (cases p)
  from assms Inr p have "args' = args"
    by (simp add: parse_args_def split: if_splits)
  with Inr p have "parse_tokens lib parser_arguments (drop 1 argv)
       (map (\<lambda>a. (dest a, default_value a)) parser_arguments, []) = Inr (args, seen)"
    by simp
  with parsed_defaults show ?thesis by (rule parse_tokens_parsed)
qed

lemma getattr_missing:
  assumes "parsed ns" and "name \<notin> set (map dest parser_arguments)"
  shows "getattr ns name = Inl (AttributeError name)"
proof -
  from assms(1) have "fst ` set ns = dest ` set parser_arguments"
    using parsed_keys [of ns] by (metis set_map)
  with assms(2) have "name \<notin> fst ` set ns" by simp
  then have "map_of ns name = None"
    by (simp add: map_of_eq_None_iff)
  then show ?thesis by (simp add: getattr_def)
qed

lemma no_convert_to_mxnet: "''convert_to_mxnet'' \<notin> set (map dest parser_arguments)"
  by (simp add: parser_arguments_def add_argument_def)

lemma parsed_getattr:
  assumes "parsed ns" and "a \<in> set parser_arguments"
  shows "\<exists>v. getattr ns (dest a) = Inr v \<and> conforms a v"
proof -
  from assms(1) have "fst ` set ns = dest ` set parser_arguments"
    using parsed_keys [of ns] by (metis set_map)
  with assms(2) have "dest a \<in> fst ` set ns" by simp
  then obtain v where v: "map_of ns (dest a) = Some v"
    by (cases "map_of ns (dest a)") (simp_all add: map_of_eq_None_iff)
  then have "(dest a, v) \<in> set ns" by (rule map_of_SomeD)
  with assms have "conforms a v" by (blast intro: parsed_conforms)
  with v show ?thesis by (simp add: getattr_def)
qed

lemma parsed_attr_int:
  assumes "parsed ns" and "add_argument fs d (Store TInt) (VInt i0) r \<in> set parser_arguments"
  shows "\<exists>i. attr_int ns d = Inr i"
proof -
  from parsed_getattr [OF assms] obtain v where
    "getattr ns d = Inr v" and "v = VInt i0 \<or> stores (Store TInt) v"
    by (auto simp: add_argument_def conforms_def)
  then show ?thesis by (cases v) (auto simp: attr_int_def)
qed

lemma parsed_attr_str:
  assumes "parsed ns" and "add_argument fs d (Store TStr) (VStr s0) r \<in> set parser_arguments"
  shows "\<exists>s. attr_str ns d = Inr s"
proof -
  from parsed_getattr [OF assms] obtain v where
    "getattr ns d = Inr v" and "v = VStr s0 \<or> stores (Store TStr) v"
    by (auto simp: add_argument_def conforms_def)
  then show ?thesis by (cases v) (auto simp: attr_str_def)
qed

lemma parsed_set_seed:
  assumes "parsed ns"
  shows "parsed (setattr ns ''seed'' (VInt seed))"
proof -
  have "parsed (setattr ns (dest (add_argument [''--seed''] ''seed'' (Store TInt) (VInt (- 1)) False))
          (VInt seed))"
    using assms
    by (rule parsed_setattr) (simp_all add: parser_arguments_def conforms_def add_argument_def)
  then show ?thesis by (simp add: add_argument_def)
qed

lemma parsed_reads:
  assumes "parsed ns"
  shows "\<exists>i. attr_int ns ''seed'' = Inr i"
    and "\<exists>s. attr_str ns ''save_dir'' = Inr s"
    and "\<exists>s. attr_str ns ''logging_file_name'' = Inr s"
    and "\<exists>s. attr_str ns ''log_packages'' = Inr s"
    and "\<exists>s. attr_str ns ''log_pip_packages'' = Inr s"
    and "\<exists>i. attr_int ns ''num_gpus'' = Inr i"
    and "\<exists>i. attr_int ns ''batch_size'' = Inr i"
proof -
  show "\<exists>i. attr_int ns ''seed'' = Inr i"
    by (rule parsed_attr_int [OF assms, of "[''--seed'']" _ "- 1" False])
      (simp add: parser_arguments_def)
  show "\<exists>s. attr_str ns ''save_dir'' = Inr s"
    by (rule parsed_attr_str [OF assms, of "[''--save-dir'']" _ "[]" False])
      (simp add: parser_arguments_def)
  show "\<exists>s. attr_str ns ''logging_file_name'' = Inr s"
    by (rule parsed_attr_str [OF assms, of "[''--logging-file-name'']" _ "''train.log''" False])
      (simp add: parser_arguments_def)
  show "\<exists>s. attr_str ns ''log_packages'' = Inr s"
    by (rule parsed_attr_str [OF assms, of "[''--log-packages'']" _ "''torch, torchvision''" False])
      (simp add: parser_arguments_def)
  show "\<exists>s. attr_str ns ''log_pip_packages'' = Inr s"
    by (rule parsed_attr_str [OF assms, of "[''--log-pip-packages'']" _ "[]" False])
      (simp add: parser_arguments_def)
  show "\<exists>i. attr_int ns ''num_gpus'' = Inr i"
    by (rule parsed_attr_int [OF assms, of "[''--num-gpus'']" _ 0 False])
      (simp add: parser_arguments_def)
  show "\<exists>i. attr_int ns ''batch_size'' = Inr i"
    by (rule parsed_attr_int [OF assms, of "[''--batch-size'']" _ 32 False])
      (simp add: parser_arguments_def)
qed

lemma journals_ret: "journals P (ret x)"
  by (simp add: journals_def ret_def)

lemma journals_raise: "journals P (raise e)"
  by (simp add: journals_def raise_def)

lemma journals_lift: "journals P (lift r)"
  by (simp add: journals_def lift_def)

lemma journals_call: "journals P (call f)"
  by (auto simp: journals_def call_def split: prod.splits)

lemma journals_emit: "P ev \<Longrightarrow> journals P (emit ev)"
  by (simp add: journals_def emit_def)

lemma journals_bind:
  assumes "journals P m" and "\<And>x. journals P (f x)"
  shows "journals P (bind m f)"
  unfolding journals_def
proof (intro allI impI)
  fix s r s''
  assume run: "bind m f s = (r, s'')"
  obtain r1 s1 where m: "m s = (r1, s1)" by (cases "m s")
  with assms(1) obtain evs where evs: "journal s1 = journal s @ evs" "list_all P evs"
    unfolding journals_def by blast
  show "\<exists>evs. journal s'' = journal s @ evs \<and> list_all P evs"
  proof (cases r1)
    case (Inl e)
    with run m have "s'' = s1" by (simp add: bind_def)
    with evs show ?thesis by blast
  next
    case (Inr x)
    with run m have "f x s1 = (r, s'')" by (simp add: bind_def)
    with assms(2) obtain evs' where "journal s'' = journal s1 @ evs'" "list_all P evs'"
      unfolding journals_def by blast
    with evs have "journal s'' = journal s @ (evs @ evs')" "list_all P (evs @ evs')"
      by simp_all
    then show ?thesis by blast
  qed
qed

lemma journals_if: "journals P m \<Longrightarrow> journals P n \<Longrightarrow> journals P (if c then m else n)"
  by simp

lemma journals_init_rand: "journals logging_stage (init_rand fw seed)"
  unfolding init_rand_def
  by (intro journals_bind journals_if journals_call journals_emit journals_ret) simp

lemma journals_prepare_logger:
  "journals logging_stage (prepare_logger fw log_dir_path logging_file_name)"
  unfolding prepare_logger_def Let_def
  by (intro journals_bind journals_if journals_call journals_emit journals_ret) simp

lemma raises_raise: "raises e (raise e)"
  by (simp add: raises_def raise_def)

lemma raises_bind:
  assumes "returns m" and "\<And>x. raises e (f x)"
  shows "raises e (bind m f)"
  unfolding raises_def
proof
  fix s
  from assms(1) obtain x s' where m: "m s = (Inr x, s')"
    unfolding returns_def by blast
  from assms(2) obtain s'' where "f x s' = (Inl e, s'')"
    unfolding raises_def by blast
  with m show "\<exists>s''. bind m f s = (Inl e, s'')"
    by (simp add: bind_def)
qed

lemma returns_lift_ex: "\<exists>x. r = Inr x \<Longrightarrow> returns (lift r)"
  by (auto simp: returns_lift)

text \<open>
  For a namespace that \<open>parse_args\<close> returned, \<open>main\<close> is its prologue followed by the
  \<open>AttributeError\<close> of the read of \<open>args.convert_to_mxnet\<close>.
\<close>

lemma main_prologue:
  assumes "parse_args lib argv = Inr args"
  shows "main fw lib argv =
     bind (lift (attr_int args ''seed'')) (\<lambda>seed.
     bind (init_rand fw seed) (\<lambda>seed.
     bind (lift (attr_str (setattr args ''seed'' (VInt seed)) ''save_dir'')) (\<lambda>save_dir.
     bind (lift (attr_str (setattr args ''seed'' (VInt seed)) ''logging_file_name''))
       (\<lambda>logging_file_name.
     bind (prepare_logger fw save_dir logging_file_name) (\<lambda>_.
     bind (emit (InfoCommandLine argv)) (\<lambda>_.
     bind (emit (InfoArguments (setattr args ''seed'' (VInt seed)))) (\<lambda>_.
     bind (lift (attr_str (setattr args ''seed'' (VInt seed)) ''log_packages'')) (\<lambda>log_packages.
     bind (lift (attr_str (setattr args ''seed'' (VInt seed)) ''log_pip_packages''))
       (\<lambda>log_pip_packages.
     bind (call (get_env_stats fw (split_commas (remove_spaces log_packages))
                   (split_commas (remove_spaces log_pip_packages)))) (\<lambda>env_stats.
     bind (emit (InfoEnvStats env_stats)) (\<lambda>_.
     bind (lift (attr_int (setattr args ''seed'' (VInt seed)) ''num_gpus'')) (\<lambda>num_gpus.
     bind (lift (attr_int (setattr args ''seed'' (VInt seed)) ''batch_size'')) (\<lambda>batch_size.
     raise (AttributeError ''convert_to_mxnet''))))))))))))))"
proof -
  have parsed: "parsed (setattr args ''seed'' (VInt seed))" for seed
    using parse_args_parsed [OF assms] by (rule parsed_set_seed)
  have missing: "getattr (setattr args ''seed'' (VInt seed)) ''convert_to_mxnet'' =
      Inl (AttributeError ''convert_to_mxnet'')" for seed
    using parsed no_convert_to_mxnet by (rule getattr_missing)
  show ?thesis
    by (simp add: main_def assms bind_lift_Inr bind_lift_Inl Let_def prepare_pt_context_def
        missing)
qed



lemma example_prologue_returns:
  "returns (init_rand example_framework seed)"
  "returns (prepare_logger example_framework log_dir_path logging_file_name)"
  "returns (call (get_env_stats example_framework packages pip_packages))"
  by (simp_all add: returns_iff init_rand_def prepare_logger_def run_defs example_framework_def
      Let_def)



subsection \<open>The assertions of \<open>main\<close> and \<open>prepare_model\<close>\<close>

lemma evaluate_parse:
  "parse_args exact_argparse evaluate_argv =
     Inr (setattr (setattr (map (\<lambda>a. (dest a, default_value a)) parser_arguments)
            ''model'' (VStr ''resnet18'')) ''evaluate'' (VBool True))"
  by (simp add: parse_args_def evaluate_argv_def exact_argparse_def convert_def
      parser_arguments_def add_argument_def)

lemma evaluate_reads:
  "getattr (setattr (setattr (map (\<lambda>a. (dest a, default_value a)) parser_arguments)
              ''model'' (VStr ''resnet18'')) ''evaluate'' (VBool True)) ''evaluate'' =
     Inr (VBool True)"
  "getattr (setattr (setattr (map (\<lambda>a. (dest a, default_value a)) parser_arguments)
              ''model'' (VStr ''resnet18'')) ''evaluate'' (VBool True)) ''use_pretrained'' =
     Inr (VBool False)"
  "getattr (setattr (setattr (map (\<lambda>a. (dest a, default_value a)) parser_arguments)
              ''model'' (VStr ''resnet18'')) ''evaluate'' (VBool True)) ''resume'' =
     Inr (VStr [])"
  by (simp_all add: getattr_def parser_arguments_def add_argument_def)

lemma evaluate_main_run:
  "main example_framework exact_argparse evaluate_argv empty_machine =
     (Inl (AttributeError ''convert_to_mxnet''),
      \<lparr>world = [],
        journal =
          [InfoCommandLine evaluate_argv,
           InfoArguments
             (setattr (setattr (setattr (map (\<lambda>a. (dest a, default_value a)) parser_arguments)
                ''model'' (VStr ''resnet18'')) ''evaluate'' (VBool True)) ''seed'' (VInt 1234)),
           InfoEnvStats []]\<rparr>)"
  unfolding main_prologue [OF evaluate_parse]
  by (simp add: init_rand_def prepare_logger_def run_defs example_framework_def Let_def
      empty_machine_def attr_int_def attr_str_def getattr_def parser_arguments_def
      add_argument_def)

text \<open>
  C5 does not hold of the code. The assertion of \<open>main\<close> (line 617) and the assertion of
  \<open>prepare_model\<close> (line 321) both come after the read of \<open>args.convert_to_mxnet\<close>
  (line 600). So for every command line \<open>parse_args\<close> accepts, in evaluate mode or not,
  with or without the use-pretrained flag and a resume path: when the seeding, the logger
  set-up and \<open>get_env_stats\<close> return normally, \<open>main\<close> ends with the \<open>AttributeError\<close> of
  that read and with no assertion failure, and its journal has gained entries of the
  logging stage only (the line that announces the loading of a checkpoint is not among
  them). In evaluate mode with neither the flag nor a resume path, where C5 expects the
  assertion failure, the exception is the \<open>AttributeError\<close>.
\<close>

theorem main_raises_no_assertion:
  assumes "parse_args lib argv = Inr args"
    and "\<And>seed. returns (init_rand fw seed)"
    and "\<And>log_dir_path logging_file_name.
           returns (prepare_logger fw log_dir_path logging_file_name)"
    and "\<And>packages pip_packages. returns (call (get_env_stats fw packages pip_packages))"
  shows "\<exists>s' evs. main fw lib argv s = (Inl (AttributeError ''convert_to_mxnet''), s') \<and>
                   journal s' = journal s @ evs \<and> list_all logging_stage evs \<and>
                   (\<nexists>msg. fst (main fw lib argv s) = Inl (AssertionError msg))"
proof -
  note parsed = parse_args_parsed [OF assms(1)]
  have parsed': "parsed (setattr args ''seed'' (VInt seed))" for seed
    using parsed by (rule parsed_set_seed)
  have "raises (AttributeError ''convert_to_mxnet'') (main fw lib argv)"
    unfolding main_prologue [OF assms(1)]
    by (intro raises_bind raises_raise returns_emit returns_lift_ex assms(2-4)
          parsed_reads [OF parsed] parsed_reads [OF parsed'])
  then obtain s' where run: "main fw lib argv s = (Inl (AttributeError ''convert_to_mxnet''), s')"
    unfolding raises_def by blast
  have "journals logging_stage (main fw lib argv)"
    unfolding main_prologue [OF assms(1)]
    by (intro journals_bind journals_lift journals_init_rand journals_prepare_logger
          journals_emit journals_call journals_raise) simp_all
  with run obtain evs where "journal s' = journal s @ evs" and "list_all logging_stage evs"
    unfolding journals_def by blast
  with run show ?thesis by auto
qed

theorem main_raises_no_assertion_witness:
  "parse_args exact_argparse evaluate_argv =
     Inr (setattr (setattr (map (\<lambda>a. (dest a, default_value a)) parser_arguments)
            ''model'' (VStr ''resnet18'')) ''evaluate'' (VBool True)) \<and>
   getattr (setattr (setattr (map (\<lambda>a. (dest a, default_value a)) parser_arguments)
              ''model'' (VStr ''resnet18'')) ''evaluate'' (VBool True)) ''evaluate'' =
     Inr (VBool True) \<and>
   getattr (setattr (setattr (map (\<lambda>a. (dest a, default_value a)) parser_arguments)
              ''model'' (VStr ''resnet18'')) ''evaluate'' (VBool True)) ''use_pretrained'' =
     Inr (VBool False) \<and>
   getattr (setattr (setattr (map (\<lambda>a. (dest a, default_value a)) parser_arguments)
              ''model'' (VStr ''resnet18'')) ''evaluate'' (VBool True)) ''resume'' =
     Inr (VStr []) \<and>
   (\<exists>s' evs. main example_framework exact_argparse evaluate_argv empty_machine =
                (Inl (AttributeError ''convert_to_mxnet''), s') \<and>
              journal s' = journal empty_machine @ evs \<and> list_all logging_stage evs \<and>
              (\<nexists>msg. fst (main example_framework exact_argparse evaluate_argv empty_machine) =
                        Inl (AssertionError msg))) \<and>
   main example_framework exact_argparse evaluate_argv empty_machine =
     (Inl (AttributeError ''convert_to_mxnet''),
      \<lparr>world = [],
        journal =
          [InfoCommandLine evaluate_argv,
           InfoArguments
             (setattr (setattr (setattr (map (\<lambda>a. (dest a, default_value a)) parser_arguments)
                ''model'' (VStr ''resnet18'')) ''evaluate'' (VBool True)) ''seed'' (VInt 1234)),
           InfoEnvStats []]\<rparr>)"
  using main_raises_no_assertion [OF evaluate_parse example_prologue_returns,
      of empty_machine]
    evaluate_parse evaluate_reads evaluate_main_run
  by simp

end
